theory Spec2Isabelle
  imports Main "HOL-Library.AList" "HOL-Library.Multiset" "HOL-Library.Signed_Division"
begin

section \<open>The Slack betting bot: data model\<close>

text \<open>
  The bot keeps three SQLite tables (\<^verbatim>\<open>src/database/schema.js\<close>, \<^verbatim>\<open>init\<close>):
  \<^verbatim>\<open>users\<close>, \<^verbatim>\<open>betting_lines\<close> and \<^verbatim>\<open>bets\<close>. A table is modelled as the list of
  its rows in insertion order; \<^verbatim>\<open>db.get\<close> returns the first matching row,
  \<^verbatim>\<open>db.all\<close> all of them. Identifiers are the strings \<^verbatim>\<open>uuid.v4()\<close> returns;
  the value drawn is a parameter of every operation that draws one. JavaScript numbers
  are stored in INTEGER columns and are modelled as \<^typ>\<open>int\<close>. Strings are
  \<^typ>\<open>string\<close>; timestamps and the Slack message reference of a line play no part
  in any decision and are left out of the rows.

  Every handler is modelled as it runs when no other handler interleaves with it; what
  two overlapping calls of \<^verbatim>\<open>placeBet\<close> do is modelled apart, after \<^verbatim>\<open>placeBet\<close>.
\<close>

record user =
  uid :: string
  slack_user_id :: string
  username :: string
  balance :: int
  total_bets :: int
  total_winnings :: int

datatype line_status = Open | Locked | Resolved

text \<open>
  An element of a line's \<^verbatim>\<open>emojis\<close> array is a string such as \<^verbatim>\<open>:a:\<close>, or a value
  that is not a string: a lookup in a JavaScript object literal also finds the members
  inherited from \<^verbatim>\<open>Object.prototype\<close>, which are functions (and, for \<^verbatim>\<open>__proto__\<close>,
  the prototype object itself). Stored through \<^verbatim>\<open>JSON.stringify\<close> such a value comes
  back as \<^verbatim>\<open>null\<close> or \<^verbatim>\<open>{}\<close>; in either form it is never \<^verbatim>\<open>===\<close> to anything
  it is compared with here.
\<close>

datatype emoji = Sym string | NotAString

record betting_line =
  lid :: string
  question :: string
  options :: "string list"
  emojis :: "emoji list"
  status :: line_status
  winner_option :: "string option"
  created_by :: string

record bet =
  bid :: string
  user_id :: string
  line_id :: string
  bet_option :: string
  amount :: int

text \<open>A row of \<^verbatim>\<open>getBetsForLine\<close>: \<^verbatim>\<open>SELECT b.*, u.username FROM bets b JOIN users u\<close>.\<close>

record bet_row = bet +
  row_username :: string

record database =
  users :: "user list"
  betting_lines :: "betting_line list"
  bets :: "bet list"

datatype stat_field = Total_bets | Total_winnings

text \<open>
  The errors the code throws, named after their messages:
  \<^verbatim>\<open>'Betting line not found'\<close>, \<^verbatim>\<open>'You have already bet on this option'\<close>,
  \<^verbatim>\<open>'Insufficient balance to place a bet'\<close>,
  \<^verbatim>\<open>'This betting line is no longer accepting bets'\<close>, a JavaScript \<^verbatim>\<open>TypeError\<close>,
  and a rejected INSERT (PRIMARY KEY, UNIQUE or NOT NULL constraint).
\<close>

datatype error =
    LineNotFound
  | AlreadyBetOnOption
  | InsufficientBalance
  | NotAcceptingBets
  | TypeError
  | SqliteConstraint

section \<open>JavaScript helpers\<close>

text \<open>
  The own members of \<^verbatim>\<open>Object.prototype\<close>. Reading one of these names from an object
  literal that has no own property of that name yields the inherited member, which is
  truthy. \<open>inherited_length\<close> is the \<^verbatim>\<open>length\<close> property of that member:
  the arity of the function, and \<^verbatim>\<open>undefined\<close> for the prototype object.
\<close>

definition object_prototype_keys :: "string list" where
  "object_prototype_keys =
     [''constructor'', ''__defineGetter__'', ''__defineSetter__'', ''hasOwnProperty'',
      ''__lookupGetter__'', ''__lookupSetter__'', ''isPrototypeOf'',
      ''propertyIsEnumerable'', ''toString'', ''valueOf'', ''__proto__'',
      ''toLocaleString'']"

definition inherited_length :: "string \<Rightarrow> nat option" where
  "inherited_length k =
     (if k \<in> set [''toString'', ''valueOf'', ''toLocaleString''] then Some 0
      else if k \<in> set [''constructor'', ''hasOwnProperty'', ''__lookupGetter__'',
                        ''__lookupSetter__'', ''isPrototypeOf'', ''propertyIsEnumerable'']
        then Some 1
      else if k \<in> set [''__defineGetter__'', ''__defineSetter__''] then Some 2
      else None)"

text \<open>\<^verbatim>\<open>obj[k]\<close> for an object literal \<open>obj\<close> whose own properties are an association list.\<close>

datatype 'a js_prop = Own 'a | Inherited string | Undefined

definition get_prop :: "(string \<times> 'a) list \<Rightarrow> string \<Rightarrow> 'a js_prop" where
  "get_prop obj k =
     (case map_of obj k of
        Some v \<Rightarrow> Own v
      | None \<Rightarrow> if k \<in> set object_prototype_keys then Inherited k else Undefined)"

text \<open>\<^verbatim>\<open>xs[i]\<close> on an array: \<^verbatim>\<open>undefined\<close> (here \<open>None\<close>) out of range.\<close>

definition js_index :: "'a list \<Rightarrow> nat \<Rightarrow> 'a option" where
  "js_index xs i = (if i < length xs then Some (xs ! i) else None)"

text \<open>\<^verbatim>\<open>xs.findIndex(p)\<close>: the first index whose element satisfies \<open>p\<close>; \<open>None\<close> is \<^verbatim>\<open>-1\<close>.\<close>

fun findIndex :: "('a \<Rightarrow> bool) \<Rightarrow> 'a list \<Rightarrow> nat option" where
  "findIndex p [] = None"
| "findIndex p (x # xs) =
     (if p x then Some 0 else (case findIndex p xs of None \<Rightarrow> None | Some i \<Rightarrow> Some (Suc i)))"

text \<open>
  \<^verbatim>\<open>toLowerCase\<close> on the ASCII letters. A character outside ASCII is a sequence of
  bytes above 127 here and stays as it is; no such character lower-cases to a letter of
  a key of the tables below, so the lookups are not affected.
\<close>

definition lower_char :: "char \<Rightarrow> char" where
  "lower_char c =
     (case map_of (zip ''ABCDEFGHIJKLMNOPQRSTUVWXYZ'' ''abcdefghijklmnopqrstuvwxyz'') c of
        Some l \<Rightarrow> l
      | None \<Rightarrow> c)"

definition toLowerCase :: "string \<Rightarrow> string" where
  "toLowerCase s = map lower_char s"

text \<open>The decimal numeral a template literal prints for an integer.\<close>

definition digit_char :: "nat \<Rightarrow> char" where
  "digit_char d = ''0123456789'' ! (d mod 10)"

function string_of_nat :: "nat \<Rightarrow> string" where
  "string_of_nat n =
     (if n < 10 then [digit_char n] else string_of_nat (n div 10) @ [digit_char (n mod 10)])"
  by pat_completeness auto
termination
  by (relation "measure id") auto

definition string_of_int :: "int \<Rightarrow> string" where
  "string_of_int i =
     (if i < 0 then CHR ''-'' # string_of_nat (nat (- i)) else string_of_nat (nat i))"

text \<open>
  \<^verbatim>\<open>a || b\<close> where \<open>b\<close> is a string: \<open>a\<close> if it is truthy (a non-empty string, a
  function or an object), else \<open>b\<close>.
\<close>

definition truthy :: "emoji \<Rightarrow> bool" where
  "truthy e = (case e of Sym s \<Rightarrow> s \<noteq> [] | NotAString \<Rightarrow> True)"

definition js_or :: "emoji option \<Rightarrow> emoji \<Rightarrow> emoji" where
  "js_or a b = (case a of Some v \<Rightarrow> if truthy v then v else b | None \<Rightarrow> b)"

text \<open>\<^verbatim>\<open>tbl[k]\<close> for an object literal of strings: own value, inherited member or undefined.\<close>

definition lookup_symbol :: "(string \<times> string) list \<Rightarrow> string \<Rightarrow> emoji option" where
  "lookup_symbol tbl k =
     (case get_prop tbl k of
        Own v \<Rightarrow> Some (Sym v)
      | Inherited _ \<Rightarrow> Some NotAString
      | Undefined \<Rightarrow> None)"

text \<open>\<^verbatim>\<open>e === reactedEmoji\<close>: two strings with the same characters.\<close>

definition strict_eq :: "emoji \<Rightarrow> emoji \<Rightarrow> bool" where
  "strict_eq a b = (case (a, b) of (Sym x, Sym y) \<Rightarrow> x = y | _ \<Rightarrow> False)"

text \<open>
  \<^verbatim>\<open>Object.keys\<close>: the own keys that are array indices (canonical numerals below
  \<open>2^32 - 1\<close>) in ascending numeric order, then the other keys in insertion order.
\<close>

definition digit_value :: "char \<Rightarrow> int" where
  "digit_value c =
     (case map_of (zip ''0123456789'' [0, 1, 2, 3, 4, 5, 6, 7, 8, 9]) c of
        Some d \<Rightarrow> d
      | None \<Rightarrow> 0)"

definition int_of_decimal :: "string \<Rightarrow> int" where
  "int_of_decimal k = foldl (\<lambda>n c. 10 * n + digit_value c) 0 k"

definition is_array_index :: "string \<Rightarrow> bool" where
  "is_array_index k =
     (k \<noteq> [] \<and> (\<forall>c \<in> set k. c \<in> set ''0123456789'') \<and>
      (k = ''0'' \<or> hd k \<noteq> CHR ''0'') \<and> int_of_decimal k < 4294967295)"

definition object_keys :: "(string \<times> 'a) list \<Rightarrow> string list" where
  "object_keys obj =
     (let ks = map fst obj
      in sort_key int_of_decimal (filter is_array_index ks) @
         filter (\<lambda>k. \<not> is_array_index k) ks)"

section \<open>The database layer (\<^verbatim>\<open>src/database/schema.js\<close>)\<close>

definition getUserBySlackId :: "string \<Rightarrow> database \<Rightarrow> user option" where
  "getUserBySlackId slackUserId s = find (\<lambda>u. slack_user_id u = slackUserId) (users s)"

definition getUserStats :: "string \<Rightarrow> database \<Rightarrow> user option" where
  "getUserStats userId s = find (\<lambda>u. uid u = userId) (users s)"

text \<open>
  \<^verbatim>\<open>createUser\<close>: the INSERT is rejected when the id (PRIMARY KEY) or the Slack id
  (UNIQUE) is taken; the other columns take their defaults.
\<close>

definition createUser :: "string \<Rightarrow> string \<Rightarrow> string \<Rightarrow> database \<Rightarrow> error + database" where
  "createUser new_id slackUserId name s =
     (if \<exists>u \<in> set (users s). uid u = new_id \<or> slack_user_id u = slackUserId
      then Inl SqliteConstraint
      else Inr (s\<lparr>users := users s @
                  [\<lparr>uid = new_id, slack_user_id = slackUserId, username = name,
                    balance = 20, total_bets = 0, total_winnings = 0\<rparr>]\<rparr>))"

definition updateUserBalance :: "string \<Rightarrow> int \<Rightarrow> database \<Rightarrow> database" where
  "updateUserBalance userId newBalance s =
     s\<lparr>users := map (\<lambda>u. if uid u = userId then u\<lparr>balance := newBalance\<rparr> else u) (users s)\<rparr>"

definition incrementUserStats :: "string \<Rightarrow> stat_field \<Rightarrow> int \<Rightarrow> database \<Rightarrow> database" where
  "incrementUserStats userId field n s =
     s\<lparr>users := map (\<lambda>u. if uid u = userId
                          then (case field of
                                  Total_bets \<Rightarrow> u\<lparr>total_bets := total_bets u + n\<rparr>
                                | Total_winnings \<Rightarrow> u\<lparr>total_winnings := total_winnings u + n\<rparr>)
                          else u) (users s)\<rparr>"

definition createBettingLine ::
  "string \<Rightarrow> string \<Rightarrow> string list \<Rightarrow> emoji list \<Rightarrow> string \<Rightarrow> database \<Rightarrow> error + database" where
  "createBettingLine new_id q opts ems createdBy s =
     (if \<exists>l \<in> set (betting_lines s). lid l = new_id then Inl SqliteConstraint
      else Inr (s\<lparr>betting_lines := betting_lines s @
                  [\<lparr>lid = new_id, question = q, options = opts, emojis = ems,
                    status = Open, winner_option = None, created_by = createdBy\<rparr>]\<rparr>))"

definition getBettingLine :: "string \<Rightarrow> database \<Rightarrow> betting_line option" where
  "getBettingLine i s = find (\<lambda>l. lid l = i) (betting_lines s)"

text \<open>
  \<^verbatim>\<open>updateBettingLineStatus(id, status, additionalFields)\<close>. Of the additional fields
  only \<^verbatim>\<open>winner_option\<close> is kept in the model; \<open>None\<close> means the call does not set it.
\<close>

definition updateBettingLineStatus ::
  "string \<Rightarrow> line_status \<Rightarrow> string option \<Rightarrow> database \<Rightarrow> database" where
  "updateBettingLineStatus i st winner s =
     s\<lparr>betting_lines :=
         map (\<lambda>l. if lid l = i
                  then (case winner of
                          None \<Rightarrow> l\<lparr>status := st\<rparr>
                        | Some w \<Rightarrow> l\<lparr>status := st, winner_option := Some w\<rparr>)
                  else l) (betting_lines s)\<rparr>"

text \<open>
  \<^verbatim>\<open>Database.placeBet\<close>: INSERT with the default amount 1. The option is a string or
  \<^verbatim>\<open>undefined\<close> (\<open>None\<close>), which the NOT NULL column rejects.
\<close>

definition db_placeBet ::
  "string \<Rightarrow> string \<Rightarrow> string \<Rightarrow> string option \<Rightarrow> database \<Rightarrow> error + database \<times> bet" where
  "db_placeBet new_id userId lineId opt s =
     (case opt of
        None \<Rightarrow> Inl SqliteConstraint
      | Some option \<Rightarrow>
          if \<exists>b \<in> set (bets s). bid b = new_id then Inl SqliteConstraint
          else (let row = \<lparr>bid = new_id, user_id = userId, line_id = lineId,
                           bet_option = option, amount = 1\<rparr>
                in Inr (s\<lparr>bets := bets s @ [row]\<rparr>, row)))"

definition getUserBetOnLine :: "string \<Rightarrow> string \<Rightarrow> database \<Rightarrow> bet option" where
  "getUserBetOnLine userId lineId s =
     find (\<lambda>b. user_id b = userId \<and> line_id b = lineId) (bets s)"

definition join_user :: "bet \<Rightarrow> user \<Rightarrow> bet_row" where
  "join_user b u = bet.extend b (bet_row.fields (username u))"

definition getBetsForLine :: "string \<Rightarrow> database \<Rightarrow> bet_row list" where
  "getBetsForLine lineId s =
     concat (map (\<lambda>b. map (join_user b) (filter (\<lambda>u. uid u = user_id b) (users s)))
                 (filter (\<lambda>b. line_id b = lineId) (bets s)))"

text \<open>\<^verbatim>\<open>DELETE FROM bets WHERE id = ?\<close>, as both callers run it.\<close>

definition delete_bet :: "string \<Rightarrow> database \<Rightarrow> database" where
  "delete_bet i s = s\<lparr>bets := filter (\<lambda>b. bid b \<noteq> i) (bets s)\<rparr>"

section \<open>The betting service (\<^verbatim>\<open>src/services/bettingService.js\<close>)\<close>

subsection \<open>\<^verbatim>\<open>generateEmojis\<close>\<close>

definition defaultEmojis :: "string list" where
  "defaultEmojis =
     ['':a:'', '':b:'', '':c:'', '':d:'', '':e:'', '':f:'', '':g:'', '':h:'', '':i:'', '':j:'']"

definition customEmojis :: "(string \<times> string) list" where
  "customEmojis =
     [(''yes'', '':white_check_mark:''),
      (''no'', '':x:''),
      (''over'', '':chart_with_upwards_trend:''),
      (''under'', '':chart_with_downwards_trend:''),
      (''win'', '':trophy:''),
      (''lose'', '':broken_heart:''),
      (''tie'', '':handshake:'')]"

definition emoji_for :: "nat \<Rightarrow> string \<Rightarrow> emoji" where
  "emoji_for index option =
     (let lowerOption = toLowerCase option
      in js_or (lookup_symbol customEmojis lowerOption)
           (js_or (map_option Sym (js_index defaultEmojis index))
              (Sym ('':'' @ string_of_nat (index + 1) @ '':''))))"

definition generateEmojis :: "string list \<Rightarrow> emoji list" where
  "generateEmojis opts = map (\<lambda>(index, option). emoji_for index option) (enumerate 0 opts)"

subsection \<open>\<^verbatim>\<open>calculatePayouts\<close>\<close>

record payout =
  p_userId :: string
  payout_username :: string
  payout_amount :: int
  originalBet :: int

text \<open>
  The object \<^verbatim>\<open>calculatePayouts\<close> returns. \<^verbatim>\<open>payoutPerWinner\<close> and \<^verbatim>\<open>remainder\<close>
  are absent (\<open>None\<close>) from the two early returns.
\<close>

record payout_data =
  payouts :: "payout list"
  totalPot :: int
  payoutPerWinner :: "int option"
  remainder :: "int option"
  message :: string

text \<open>
  The \<^verbatim>\<open>bets.forEach\<close> loop that fills \<^verbatim>\<open>betsByOption\<close>, an object literal that starts
  empty. \<^verbatim>\<open>!betsByOption[bet.option]\<close> is false for an own array and for an inherited
  member alike; \<^verbatim>\<open>.push\<close> on an inherited member is not a function and throws.
\<close>

fun group_bets ::
  "bet_row list \<Rightarrow> (string \<times> bet_row list) list \<Rightarrow> error + (string \<times> bet_row list) list" where
  "group_bets [] betsByOption = Inr betsByOption"
| "group_bets (bet # rest) betsByOption =
     (case get_prop betsByOption (bet_option bet) of
        Own xs \<Rightarrow> group_bets rest (AList.update (bet_option bet) (xs @ [bet]) betsByOption)
      | Inherited _ \<Rightarrow> Inl TypeError
      | Undefined \<Rightarrow> group_bets rest (AList.update (bet_option bet) [bet] betsByOption))"

definition own_bets :: "(string \<times> bet_row list) list \<Rightarrow> string \<Rightarrow> bet_row list" where
  "own_bets betsByOption k = (case map_of betsByOption k of Some xs \<Rightarrow> xs | None \<Rightarrow> [])"

definition to_payout :: "int \<Rightarrow> bet_row \<Rightarrow> payout" where
  "to_payout p bet =
     \<lparr>p_userId = user_id bet, payout_username = row_username bet, payout_amount = p,
      originalBet = amount bet\<rparr>"

definition no_winners :: "int \<Rightarrow> payout_data" where
  "no_winners pot =
     \<lparr>payouts = [], totalPot = pot, payoutPerWinner = None, remainder = None,
      message = ''No one bet on the winning option. Pot retained by the bot.''\<rparr>"

text \<open>
  The part of \<^verbatim>\<open>calculatePayouts\<close> after the two reads of the database.
  \<^verbatim>\<open>betsByOption[winningOption] || []\<close> is the own array of the winning option; an
  inherited member when the winning option names one and nobody bet on it (its
  \<^verbatim>\<open>length\<close> decides the first test, and \<^verbatim>\<open>.map\<close> on it throws); and \<^verbatim>\<open>[]\<close>
  otherwise. \<^verbatim>\<open>Math.floor(a / n)\<close> is \<open>div\<close> for a positive \<open>n\<close>, and \<^verbatim>\<open>%\<close> takes
  the sign of the dividend (\<open>smod\<close>).
\<close>

definition compute_payouts :: "bet_row list \<Rightarrow> string \<Rightarrow> error + payout_data" where
  "compute_payouts bs winningOption =
     (case group_bets bs [] of
        Inl e \<Rightarrow> Inl e
      | Inr betsByOption \<Rightarrow>
          (let losingBets =
                 concat (map (own_bets betsByOption)
                           (filter (\<lambda>option. option \<noteq> winningOption) (object_keys betsByOption)));
               pot = foldl (\<lambda>sum bet. sum + amount bet) 0 losingBets
           in case get_prop betsByOption winningOption of
                Undefined \<Rightarrow> Inr (no_winners pot)
              | Inherited k \<Rightarrow>
                  if inherited_length k = Some 0 then Inr (no_winners pot) else Inl TypeError
              | Own winningBets \<Rightarrow>
                  if length winningBets = 0 then Inr (no_winners pot)
                  else if length losingBets = 0 then
                    Inr \<lparr>payouts = map (to_payout 0) winningBets, totalPot = 0,
                         payoutPerWinner = None, remainder = None,
                         message = ''Everyone bet on the winning option. No payouts.''\<rparr>
                  else
                    (let perWinner = pot div int (length winningBets);
                         rest = pot smod int (length winningBets)
                     in Inr \<lparr>payouts = map (to_payout perWinner) winningBets,
                             totalPot = pot,
                             payoutPerWinner = Some perWinner,
                             remainder = Some rest,
                             message = ''Winners receive '' @ string_of_int perWinner @
                               '' units each. '' @ string_of_int rest @
                               '' units remain in bot pool.''\<rparr>)))"

definition calculatePayouts :: "string \<Rightarrow> string \<Rightarrow> database \<Rightarrow> error + payout_data" where
  "calculatePayouts lineId winningOption s =
     (case getBettingLine lineId s of
        None \<Rightarrow> Inl LineNotFound
      | Some line \<Rightarrow> compute_payouts (getBetsForLine lineId s) winningOption)"

subsection \<open>\<^verbatim>\<open>processPayouts\<close>\<close>

text \<open>The body of the loop over \<^verbatim>\<open>payoutData.payouts\<close>.\<close>

definition credit_winner :: "payout \<Rightarrow> database \<Rightarrow> database" where
  "credit_winner p s =
     (case getUserStats (p_userId p) s of
        None \<Rightarrow> s
      | Some user \<Rightarrow>
          incrementUserStats (p_userId p) Total_winnings (payout_amount p)
            (updateUserBalance (p_userId p) (balance user + payout_amount p) s))"

text \<open>The body of the loop over the losing bets.\<close>

definition debit_loser :: "bet_row \<Rightarrow> database \<Rightarrow> database" where
  "debit_loser bet s =
     (case getUserStats (user_id bet) s of
        None \<Rightarrow> s
      | Some user \<Rightarrow> updateUserBalance (user_id bet) (max 0 (balance user - amount bet)) s)"

definition processPayouts ::
  "string \<Rightarrow> string \<Rightarrow> database \<Rightarrow> database \<times> (error + payout_data)" where
  "processPayouts lineId winningOption s =
     (case calculatePayouts lineId winningOption s of
        Inl e \<Rightarrow> (s, Inl e)
      | Inr payoutData \<Rightarrow>
          (let s1 = fold credit_winner (payouts payoutData) s;
               losingBets = filter (\<lambda>bet. bet_option bet \<noteq> winningOption)
                                   (getBetsForLine lineId s1);
               s2 = fold debit_loser losingBets s1
           in (s2, Inr payoutData)))"

subsection \<open>\<^verbatim>\<open>placeBet\<close>\<close>

text \<open>
  Lines 156 to 174 of the service: the balance check, the status check, the debit and
  the INSERT. \<^verbatim>\<open>user.balance\<close> on a missing user throws a \<^verbatim>\<open>TypeError\<close>. What was
  written before a throw stays written.
\<close>

definition placeBet_validate ::
  "string \<Rightarrow> string \<Rightarrow> string \<Rightarrow> string option \<Rightarrow> database \<Rightarrow> database \<times> (error + bet)" where
  "placeBet_validate new_id userId lineId option s =
     (case getUserStats userId s of
        None \<Rightarrow> (s, Inl TypeError)
      | Some user \<Rightarrow>
          if balance user < 1 then (s, Inl InsufficientBalance)
          else
            (case getBettingLine lineId s of
               None \<Rightarrow> (s, Inl NotAcceptingBets)
             | Some line \<Rightarrow>
                 if status line \<noteq> Open then (s, Inl NotAcceptingBets)
                 else
                   (let s1 = updateUserBalance userId (balance user - 1) s;
                        s2 = incrementUserStats userId Total_bets 1 s1
                    in case db_placeBet new_id userId lineId option s2 of
                         Inl e \<Rightarrow> (s2, Inl e)
                       | Inr (s3, row) \<Rightarrow> (s3, Inr row))))"

text \<open>
  \<^verbatim>\<open>placeBet(userId, lineId, option)\<close>: an existing bet of the user on the line is
  looked at first. The option is a string or \<^verbatim>\<open>undefined\<close> (\<open>None\<close>).
\<close>

definition placeBet ::
  "string \<Rightarrow> string \<Rightarrow> string \<Rightarrow> string option \<Rightarrow> database \<Rightarrow> database \<times> (error + bet)" where
  "placeBet new_id userId lineId option s =
     (case getUserBetOnLine userId lineId s of
        None \<Rightarrow> placeBet_validate new_id userId lineId option s
      | Some existingBet \<Rightarrow>
          if Some (bet_option existingBet) = option then (s, Inl AlreadyBetOnOption)
          else
            (let s1 = delete_bet (bid existingBet) s
             in case getUserStats userId s1 of
                  None \<Rightarrow> (s1, Inl TypeError)
                | Some user \<Rightarrow>
                    (let s2 = updateUserBalance userId (balance user + amount existingBet) s1;
                         s3 = incrementUserStats userId Total_bets (- 1) s2
                     in placeBet_validate new_id userId lineId option s3)))"

text \<open>
  Every database call of \<^verbatim>\<open>placeBet\<close> is awaited, and while a call waits other handlers
  run; nothing in the repository (no lock, no transaction, no UNIQUE constraint on
  member and line) keeps two calls apart. \<open>placeBet_resume\<close> is \<^verbatim>\<open>placeBet\<close> from
  line 141 on, for a call that has read \<^verbatim>\<open>existingBet\<close> at line 139 and resumes in a
  store that may have changed since. \<open>overlapped_placeBets\<close> is one schedule of two
  calls A and B for the same member and line: both read their \<^verbatim>\<open>existingBet\<close>, then A
  runs its remaining lines, then B runs its own.
\<close>

definition placeBet_resume ::
  "string \<Rightarrow> string \<Rightarrow> string \<Rightarrow> string option \<Rightarrow> bet option \<Rightarrow> database
     \<Rightarrow> database \<times> (error + bet)" where
  "placeBet_resume new_id userId lineId option existing s =
     (case existing of
        None \<Rightarrow> placeBet_validate new_id userId lineId option s
      | Some existingBet \<Rightarrow>
          if Some (bet_option existingBet) = option then (s, Inl AlreadyBetOnOption)
          else
            (let s1 = delete_bet (bid existingBet) s
             in case getUserStats userId s1 of
                  None \<Rightarrow> (s1, Inl TypeError)
                | Some user \<Rightarrow>
                    (let s2 = updateUserBalance userId (balance user + amount existingBet) s1;
                         s3 = incrementUserStats userId Total_bets (- 1) s2
                     in placeBet_validate new_id userId lineId option s3)))"


section \<open>The Slack handlers (\<^verbatim>\<open>src/handlers/slackHandlers.js\<close>)\<close>

text \<open>
  The handlers are modelled from the point where the command text is parsed and, for a
  reaction, the line id is read off the card; an event that is dropped before that
  point changes nothing. \<^verbatim>\<open>isAdmin\<close> returns \<^verbatim>\<open>true\<close> for everyone. Rendering the card
  and answering the command come after the database writes and are not modelled.
\<close>

definition nameToEmoji :: "(string \<times> string) list" where
  "nameToEmoji =
     [(''a'', '':a:''), (''b'', '':b:''), (''c'', '':c:''), (''d'', '':d:''),
      (''e'', '':e:''), (''f'', '':f:''), (''g'', '':g:''), (''h'', '':h:''),
      (''i'', '':i:''), (''j'', '':j:''),
      (''white_check_mark'', '':white_check_mark:''), (''x'', '':x:''),
      (''chart_with_upwards_trend'', '':chart_with_upwards_trend:''),
      (''chart_with_downwards_trend'', '':chart_with_downwards_trend:''),
      (''trophy'', '':trophy:''), (''broken_heart'', '':broken_heart:''),
      (''handshake'', '':handshake:'')]"

definition reactedEmoji :: "string \<Rightarrow> emoji" where
  "reactedEmoji reaction =
     js_or (lookup_symbol nameToEmoji reaction) (Sym ('':'' @ reaction @ '':''))"

text \<open>\<^verbatim>\<open>/bet create\<close>, from the parsed question and options.\<close>

definition handleCreateLine ::
  "string \<Rightarrow> string \<Rightarrow> string list \<Rightarrow> string \<Rightarrow> database \<Rightarrow> database" where
  "handleCreateLine new_id q opts slackUser s =
     (if length opts < 2 then s
      else (case createBettingLine new_id q opts (generateEmojis opts) slackUser s of
              Inl e \<Rightarrow> s
            | Inr s1 \<Rightarrow> updateBettingLineStatus new_id Open None s1))"

text \<open>\<^verbatim>\<open>/bet lock <line_id>\<close>.\<close>

definition handleLockLine :: "string \<Rightarrow> database \<Rightarrow> database" where
  "handleLockLine lineId s =
     (case getBettingLine lineId s of
        None \<Rightarrow> s
      | Some line \<Rightarrow>
          if status line \<noteq> Open then s
          else updateBettingLineStatus (lid line) Locked None s)"

text \<open>
  \<^verbatim>\<open>/bet resolve <line_id> winner: <option>\<close>. The answers: line not found, invalid
  winning option, an error thrown by \<^verbatim>\<open>processPayouts\<close> (reported by the dispatcher),
  or the payout data of a resolution that went through.
\<close>

datatype resolve_outcome =
    Resolve_not_found
  | Resolve_invalid_option
  | Resolve_error error
  | Resolve_done payout_data

definition handleResolveLine ::
  "string \<Rightarrow> string \<Rightarrow> database \<Rightarrow> database \<times> resolve_outcome" where
  "handleResolveLine lineId winningOption s =
     (case getBettingLine lineId s of
        None \<Rightarrow> (s, Resolve_not_found)
      | Some line \<Rightarrow>
          if winningOption \<notin> set (options line) then (s, Resolve_invalid_option)
          else
            (case processPayouts lineId winningOption s of
               (s1, Inl e) \<Rightarrow> (s1, Resolve_error e)
             | (s1, Inr payoutData) \<Rightarrow>
                 (updateBettingLineStatus (lid line) Resolved (Some winningOption) s1,
                  Resolve_done payoutData)))"

text \<open>\<^verbatim>\<open>/bet stats\<close>: the only write is the lazy creation of the user.\<close>

definition handleStats :: "string \<Rightarrow> string \<Rightarrow> string \<Rightarrow> database \<Rightarrow> database" where
  "handleStats slackUser new_id name s =
     (case getUserBySlackId slackUser s of
        Some u \<Rightarrow> s
      | None \<Rightarrow> (case createUser new_id slackUser name s of Inl e \<Rightarrow> s | Inr s1 \<Rightarrow> s1))"

text \<open>
  \<^verbatim>\<open>reaction_added\<close>. The outcomes: the handler returned before \<^verbatim>\<open>placeBet\<close> and told
  the member nothing (\<open>Ignored\<close>); creating the user threw, which the outer
  \<^verbatim>\<open>catch\<close> only logs (\<open>Failed\<close>); \<^verbatim>\<open>placeBet\<close> returned the bet (\<open>Bet_placed\<close>);
  \<^verbatim>\<open>placeBet\<close> threw and the inner \<^verbatim>\<open>catch\<close> posted the error's message to the
  member (\<open>Bet_refused\<close>).
\<close>

datatype added_outcome = Ignored | Failed error | Bet_placed bet | Bet_refused error

definition handleReactionAdded ::
  "string \<Rightarrow> string \<Rightarrow> string \<Rightarrow> string \<Rightarrow> string \<Rightarrow> string \<Rightarrow> database
     \<Rightarrow> database \<times> added_outcome" where
  "handleReactionAdded slackUser reaction lineId new_user_id name new_bet_id s =
     (case getBettingLine lineId s of
        None \<Rightarrow> (s, Ignored)
      | Some line \<Rightarrow>
          if status line \<noteq> Open then (s, Ignored)
          else
            (case findIndex (\<lambda>e. strict_eq e (reactedEmoji reaction)) (emojis line) of
               None \<Rightarrow> (s, Ignored)
             | Some optionIndex \<Rightarrow>
                 (let selectedOption = js_index (options line) optionIndex;
                      ensured = (case getUserBySlackId slackUser s of
                                   Some u \<Rightarrow> Inr (s, uid u)
                                 | None \<Rightarrow>
                                     (case createUser new_user_id slackUser name s of
                                        Inl e \<Rightarrow> Inl e
                                      | Inr s1 \<Rightarrow> Inr (s1, new_user_id)))
                  in case ensured of
                       Inl e \<Rightarrow> (s, Failed e)
                     | Inr (s1, dbUserId) \<Rightarrow>
                         (case placeBet new_bet_id dbUserId (lid line) selectedOption s1 of
                            (s2, Inl e) \<Rightarrow> (s2, Bet_refused e)
                          | (s2, Inr row) \<Rightarrow> (s2, Bet_placed row)))))"

text \<open>\<^verbatim>\<open>reaction_removed\<close>: the database after the handler has run.\<close>

definition handleReactionRemoved :: "string \<Rightarrow> string \<Rightarrow> string \<Rightarrow> database \<Rightarrow> database" where
  "handleReactionRemoved slackUser reaction lineId s =
     (case getBettingLine lineId s of
        None \<Rightarrow> s
      | Some line \<Rightarrow>
          if status line \<noteq> Open then s
          else
            (case getUserBySlackId slackUser s of
               None \<Rightarrow> s
             | Some dbUser \<Rightarrow>
                 (case getUserBetOnLine (uid dbUser) lineId s of
                    None \<Rightarrow> s
                  | Some userBet \<Rightarrow>
                      (case findIndex (\<lambda>e. strict_eq e (reactedEmoji reaction)) (emojis line) of
                         None \<Rightarrow> s
                       | Some optionIndex \<Rightarrow>
                           if Some (bet_option userBet) \<noteq> js_index (options line) optionIndex
                           then s
                           else
                             (let s1 = delete_bet (bid userBet) s;
                                  newBalance = balance dbUser + amount userBet;
                                  s2 = updateUserBalance (uid dbUser) newBalance s1
                              in incrementUserStats (uid dbUser) Total_bets (- 1) s2)))))"

section \<open>Runs of the bot\<close>

text \<open>
  Everything that writes to the database: the slash commands, the two reaction events,
  and the two service methods the repository's own scripts call directly.
\<close>

datatype event =
    Create_line string string "string list" string
  | Lock_line string
  | Resolve_line string string
  | Stats string string string
  | Reaction_added string string string string string string
  | Reaction_removed string string string
  | Place_bet string string string "string option"
  | Process_payouts string string

fun step :: "event \<Rightarrow> database \<Rightarrow> database" where
  "step (Create_line new_id q opts slackUser) s = handleCreateLine new_id q opts slackUser s"
| "step (Lock_line lineId) s = handleLockLine lineId s"
| "step (Resolve_line lineId winningOption) s = fst (handleResolveLine lineId winningOption s)"
| "step (Stats slackUser new_id name) s = handleStats slackUser new_id name s"
| "step (Reaction_added slackUser reaction lineId new_user_id name new_bet_id) s =
     fst (handleReactionAdded slackUser reaction lineId new_user_id name new_bet_id s)"
| "step (Reaction_removed slackUser reaction lineId) s =
     handleReactionRemoved slackUser reaction lineId s"
| "step (Place_bet new_id u lineId option) s = fst (placeBet new_id u lineId option s)"
| "step (Process_payouts lineId winningOption) s = fst (processPayouts lineId winningOption s)"

definition run :: "event list \<Rightarrow> database \<Rightarrow> database" where
  "run evs s = fold step evs s"

definition empty_db :: database where
  "empty_db = \<lparr>users = [], betting_lines = [], bets = []\<rparr>"


definition balances_nonneg :: "database \<Rightarrow> bool" where
  "balances_nonneg s = (\<forall>u \<in> set (users s). 0 \<le> balance u)"

definition unit_bets :: "database \<Rightarrow> bool" where
  "unit_bets s = (\<forall>b \<in> set (bets s). amount b = 1)"

text \<open>
  The winning and the losing stakes of a resolution, and the option a reaction stands
  for on a line (the two lines both reaction handlers use to read it off the card).
\<close>

definition winners_of :: "bet_row list \<Rightarrow> string \<Rightarrow> bet_row list" where
  "winners_of bs w = filter (\<lambda>b. bet_option b = w) bs"

definition losers_of :: "bet_row list \<Rightarrow> string \<Rightarrow> bet_row list" where
  "losers_of bs w = filter (\<lambda>b. bet_option b \<noteq> w) bs"

definition decoded_option :: "string \<Rightarrow> betting_line \<Rightarrow> string option" where
  "decoded_option reaction line =
     (case findIndex (\<lambda>e. strict_eq e (reactedEmoji reaction)) (emojis line) of
        None \<Rightarrow> None
      | Some optionIndex \<Rightarrow> js_index (options line) optionIndex)"

section \<open>Concrete states\<close>

text \<open>
  Three members with the starting balance and one open line, as the repository's test
  script sets them up; then the stakes that script places.
\<close>

definition three_members :: database where
  "three_members =
     \<lparr>users =
        [\<lparr>uid = ''m1'', slack_user_id = ''U1'', username = ''M1'', balance = 20,
          total_bets = 0, total_winnings = 0\<rparr>,
         \<lparr>uid = ''m2'', slack_user_id = ''U2'', username = ''M2'', balance = 20,
          total_bets = 0, total_winnings = 0\<rparr>,
         \<lparr>uid = ''m3'', slack_user_id = ''U3'', username = ''M3'', balance = 20,
          total_bets = 0, total_winnings = 0\<rparr>],
      betting_lines =
        [\<lparr>lid = ''L'', question = ''Will Team A score over 100?'',
          options = [''over'', ''under''], emojis = generateEmojis [''over'', ''under''],
          status = Open, winner_option = None, created_by = ''U1''\<rparr>],
      bets = []\<rparr>"

definition three_stakes :: database where
  "three_stakes =
     run [Place_bet ''b1'' ''m1'' ''L'' (Some ''over''),
          Place_bet ''b2'' ''m2'' ''L'' (Some ''under''),
          Place_bet ''b3'' ''m3'' ''L'' (Some ''over'')] three_members"

text \<open>One stake on each side.\<close>

definition two_stakes :: database where
  "two_stakes =
     run [Place_bet ''b1'' ''m1'' ''L'' (Some ''over''),
          Place_bet ''b2'' ''m2'' ''L'' (Some ''under'')] three_members"

text \<open>
  A second line whose options are \<^verbatim>\<open>over\<close> and \<^verbatim>\<open>toString\<close>, created with
  \<^verbatim>\<open>/bet create\<close>, and two members who react to its card.
\<close>

definition inherited_name_stakes :: database where
  "inherited_name_stakes =
     run [Create_line ''T'' ''Which one?'' [''over'', ''toString''] ''U1'',
          Reaction_added ''U1'' ''chart_with_upwards_trend'' ''T'' ''n1'' ''M1'' ''t1'',
          Reaction_added ''U2'' ''b'' ''T'' ''n2'' ''M2'' ''t2''] three_members"

text \<open>The first member has a stake on \<^verbatim>\<open>over\<close>; then the line is locked.\<close>

definition locked_with_stake :: database where
  "locked_with_stake =
     run [Place_bet ''b1'' ''m1'' ''L'' (Some ''over''), Lock_line ''L''] three_members"

text \<open>
  A member at balance 0 who holds a stake on \<^verbatim>\<open>over\<close> on the open line \<^verbatim>\<open>L\<close> and none
  on the open line \<^verbatim>\<open>K\<close>. The balance is set with \<^verbatim>\<open>updateUserBalance\<close>, as the test
  script does for its user without funds.
\<close>

definition broke_member :: database where
  "broke_member =
     updateUserBalance ''m1'' 0
       (run [Create_line ''K'' ''Will it rain?'' [''yes'', ''no''] ''U1'',
             Place_bet ''b1'' ''m1'' ''L'' (Some ''over'')] three_members)"

section \<open>Properties of the model\<close>

subsection \<open>Grouping the stakes by option\<close>

lemma own_bets_update:
  "own_bets (AList.update k v obj) k' = (if k' = k then v else own_bets obj k')"
  by (simp add: own_bets_def update_conv')

lemma get_prop_Own: "get_prop obj k = Own v \<longleftrightarrow> map_of obj k = Some v"
  by (auto simp: get_prop_def split: option.splits)

lemma group_bets_Inr:
  "group_bets bs acc = Inr g \<Longrightarrow> distinct (map fst acc) \<Longrightarrow>
     distinct (map fst g) \<and>
     set (map fst g) = set (map fst acc) \<union> bet_option ` set bs \<and>
     (\<forall>k. own_bets g k = own_bets acc k @ filter (\<lambda>b. bet_option b = k) bs)"
proof (induction bs arbitrary: acc)
  case Nil
  then show ?case by simp
next
  case (Cons b bs)
  let ?k = "bet_option b"
  show ?case
  proof (cases "get_prop acc ?k")
    case (Own xs)
    then have m: "map_of acc ?k = Some xs" by (simp add: get_prop_Own)
    let ?acc = "AList.update ?k (xs @ [b]) acc"
    from Cons.prems Own have g: "group_bets bs ?acc = Inr g" by simp
    have d: "distinct (map fst ?acc)" using Cons.prems(2) by (simp add: distinct_update)
    have xs: "own_bets acc ?k = xs" using m by (simp add: own_bets_def)
    from Cons.IH [OF g d] show ?thesis
      using xs by (auto simp: own_bets_update dom_update)
  next
    case (Inherited x)
    with Cons.prems show ?thesis by simp
  next
    case Undefined
    then have m: "map_of acc ?k = None"
      by (auto simp: get_prop_def split: option.splits if_splits)
    let ?acc = "AList.update ?k [b] acc"
    from Cons.prems Undefined have g: "group_bets bs ?acc = Inr g" by simp
    have d: "distinct (map fst ?acc)" using Cons.prems(2) by (simp add: distinct_update)
    have xs: "own_bets acc ?k = []" using m by (simp add: own_bets_def)
    from Cons.IH [OF g d] show ?thesis
      using xs by (auto simp: own_bets_update dom_update)
  qed
qed

lemma group_bets_total:
  "\<forall>b \<in> set bs. bet_option b \<notin> set object_prototype_keys \<Longrightarrow> \<exists>g. group_bets bs acc = Inr g"
proof (induction bs arbitrary: acc)
  case Nil
  then show ?case by simp
next
  case (Cons b bs)
  then show ?case
    by (cases "get_prop acc (bet_option b)") (auto simp: get_prop_def split: option.splits)
qed

lemma group_bets_throws:
  "\<exists>b \<in> set bs. bet_option b \<in> set object_prototype_keys \<Longrightarrow>
   \<forall>k \<in> fst ` set acc. k \<notin> set object_prototype_keys \<Longrightarrow>
   group_bets bs acc = Inl TypeError"
proof (induction bs arbitrary: acc)
  case Nil
  then show ?case by simp
next
  case (Cons b bs)
  show ?case
  proof (cases "bet_option b \<in> set object_prototype_keys")
    case True
    with Cons.prems(2) have "map_of acc (bet_option b) = None"
      by (metis domIff dom_map_of_conv_image_fst)
    with True show ?thesis by (simp add: get_prop_def)
  next
    case False
    with Cons.prems(1) have ex: "\<exists>b \<in> set bs. bet_option b \<in> set object_prototype_keys" by auto
    have "\<And>v. \<forall>k \<in> fst ` set (AList.update (bet_option b) v acc). k \<notin> set object_prototype_keys"
      using False Cons.prems(2) by (auto simp: dom_update)
    with Cons.IH [OF ex] False show ?thesis
      by (auto simp: get_prop_def split: option.splits)
  qed
qed

lemma mset_object_keys: "mset (object_keys obj) = mset (map fst obj)"
  by (simp add: object_keys_def Let_def)

lemma foldl_amount: "foldl (\<lambda>sum bet. sum + amount bet) a xs = a + sum_list (map amount xs)"
  by (induction xs arbitrary: a) auto

lemma mset_concat_groups:
  "distinct ks \<Longrightarrow>
   mset (concat (map (\<lambda>k. filter (\<lambda>b. f b = k) bs) ks)) = filter_mset (\<lambda>b. f b \<in> set ks) (mset bs)"
proof (induction ks)
  case Nil
  then show ?case by simp
next
  case (Cons k ks)
  have "filter_mset (\<lambda>b. f b \<in> set (k # ks)) (mset bs) =
        filter_mset (\<lambda>b. f b = k) (mset bs) + filter_mset (\<lambda>b. f b \<in> set ks) (mset bs)"
    using Cons.prems by (induction bs) auto
  with Cons show ?case by simp
qed


lemma losing_bets_mset:
  assumes g: "group_bets bs [] = Inr g"
  shows "mset (concat (map (own_bets g) (filter (\<lambda>option. option \<noteq> w) (object_keys g)))) =
         filter_mset (\<lambda>b. bet_option b \<noteq> w) (mset bs)"
proof -
  from group_bets_Inr [OF g] have d: "distinct (map fst g)"
    and ks: "set (map fst g) = bet_option ` set bs"
    and own: "\<And>k. own_bets g k = filter (\<lambda>b. bet_option b = k) bs"
    by (simp_all add: own_bets_def)
  let ?ks = "filter (\<lambda>option. option \<noteq> w) (object_keys g)"
  have "distinct (object_keys g) = distinct (map fst g)"
    by (rule mset_eq_imp_distinct_iff) (rule mset_object_keys)
  with d have dk: "distinct ?ks" by simp
  have "set (object_keys g) = set (map fst g)"
    using mset_object_keys [of g] by (metis set_mset_mset)
  then have sk: "set ?ks = bet_option ` set bs - {w}" using ks by auto
  have "own_bets g = (\<lambda>k. filter (\<lambda>b. bet_option b = k) bs)" using own by auto
  then have "mset (concat (map (own_bets g) ?ks)) =
             filter_mset (\<lambda>b. bet_option b \<in> set ?ks) (mset bs)"
    using mset_concat_groups [OF dk, of bet_option bs] by simp
  also have "\<dots> = filter_mset (\<lambda>b. bet_option b \<noteq> w) (mset bs)"
    unfolding sk by (rule filter_mset_cong) auto
  finally show ?thesis .
qed

lemma sum_amount_mset:
  "mset xs = mset ys \<Longrightarrow> sum_list (map amount xs) = sum_list (map amount ys)"
  by (metis mset_map sum_mset_sum_list)

lemma winning_prop:
  assumes g: "group_bets bs [] = Inr g"
  shows "get_prop g w =
           (if filter (\<lambda>b. bet_option b = w) bs \<noteq> [] then Own (filter (\<lambda>b. bet_option b = w) bs)
            else if w \<in> set object_prototype_keys then Inherited w else Undefined)"
proof -
  from group_bets_Inr [OF g] have ks: "set (map fst g) = bet_option ` set bs"
    and own: "\<And>k. own_bets g k = filter (\<lambda>b. bet_option b = k) bs"
    by (simp_all add: own_bets_def)
  show ?thesis
  proof (cases "w \<in> bet_option ` set bs")
    case True
    then have ne: "filter (\<lambda>b. bet_option b = w) bs \<noteq> []"
      by (auto simp: filter_empty_conv)
    from True ks have "w \<in> fst ` set g" by simp
    then obtain xs where m: "map_of g w = Some xs"
      by (metis domD dom_map_of_conv_image_fst)
    then have "xs = filter (\<lambda>b. bet_option b = w) bs" using own [of w] by (simp add: own_bets_def)
    with m ne show ?thesis by (simp add: get_prop_def)
  next
    case False
    then have e: "filter (\<lambda>b. bet_option b = w) bs = []"
      by (auto simp: filter_empty_conv)
    from False ks have "w \<notin> fst ` set g" by simp
    then have "map_of g w = None" by (metis domIff dom_map_of_conv_image_fst)
    with e show ?thesis by (simp add: get_prop_def)
  qed
qed

lemma compute_payouts_grouped:
  assumes g: "group_bets bs [] = Inr g"
  shows "compute_payouts bs w =
     (let pot = sum_list (map amount (losers_of bs w)); n = int (length (winners_of bs w))
      in if winners_of bs w = [] then
           (if w \<in> set object_prototype_keys \<and> inherited_length w \<noteq> Some 0 then Inl TypeError
            else Inr (no_winners pot))
         else if losers_of bs w = [] then
           Inr \<lparr>payouts = map (to_payout 0) (winners_of bs w), totalPot = 0,
                payoutPerWinner = None, remainder = None,
                message = ''Everyone bet on the winning option. No payouts.''\<rparr>
         else
           Inr \<lparr>payouts = map (to_payout (pot div n)) (winners_of bs w), totalPot = pot,
                payoutPerWinner = Some (pot div n), remainder = Some (pot smod n),
                message = ''Winners receive '' @ string_of_int (pot div n) @
                  '' units each. '' @ string_of_int (pot smod n) @
                  '' units remain in bot pool.''\<rparr>)"
proof -
  let ?L = "concat (map (own_bets g) (filter (\<lambda>option. option \<noteq> w) (object_keys g)))"
  have ms: "mset ?L = mset (losers_of bs w)"
    using losing_bets_mset [OF g, of w] by (simp add: losers_of_def)
  have pot: "foldl (\<lambda>sum bet. sum + amount bet) 0 ?L = sum_list (map amount (losers_of bs w))"
    using sum_amount_mset [OF ms] by (simp add: foldl_amount)
  have len: "length ?L = length (losers_of bs w)"
    using ms by (metis size_mset)
  show ?thesis
    unfolding compute_payouts_def Let_def g sum.case pot len winning_prop [OF g]
    by (simp add: winners_of_def)
qed


subsection \<open>Frame lemmas\<close>

lemma bets_updateUserBalance [simp]: "bets (updateUserBalance u n s) = bets s"
  by (simp add: updateUserBalance_def)

lemma bets_incrementUserStats [simp]: "bets (incrementUserStats u f n s) = bets s"
  by (simp add: incrementUserStats_def)

lemma bets_updateBettingLineStatus [simp]: "bets (updateBettingLineStatus i st w s) = bets s"
  by (simp add: updateBettingLineStatus_def)

lemma users_updateBettingLineStatus [simp]: "users (updateBettingLineStatus i st w s) = users s"
  by (simp add: updateBettingLineStatus_def)

lemma users_delete_bet [simp]: "users (delete_bet i s) = users s"
  by (simp add: delete_bet_def)

lemma lines_delete_bet [simp]: "betting_lines (delete_bet i s) = betting_lines s"
  by (simp add: delete_bet_def)

lemma lines_updateUserBalance [simp]: "betting_lines (updateUserBalance u n s) = betting_lines s"
  by (simp add: updateUserBalance_def)

lemma lines_incrementUserStats [simp]:
  "betting_lines (incrementUserStats u f n s) = betting_lines s"
  by (simp add: incrementUserStats_def)

lemma createUser_frame:
  "createUser i su nm s = Inr s' \<Longrightarrow>
     bets s' = bets s \<and> betting_lines s' = betting_lines s \<and>
     (\<exists>u. users s' = users s @ [u] \<and> balance u = 20)"
  by (auto simp: createUser_def split: if_splits)

lemma createBettingLine_frame:
  "createBettingLine i q os es c s = Inr s' \<Longrightarrow> bets s' = bets s \<and> users s' = users s"
  by (auto simp: createBettingLine_def split: if_splits)

lemma bets_credit_winner [simp]: "bets (credit_winner p s) = bets s"
  by (simp add: credit_winner_def split: option.splits)

lemma bets_debit_loser [simp]: "bets (debit_loser b s) = bets s"
  by (simp add: debit_loser_def split: option.splits)

lemma bets_fold_credit [simp]: "bets (fold credit_winner ps s) = bets s"
  by (induction ps arbitrary: s) auto

lemma bets_fold_debit [simp]: "bets (fold debit_loser bs s) = bets s"
  by (induction bs arbitrary: s) auto

lemma bets_processPayouts [simp]: "bets (fst (processPayouts l w s)) = bets s"
  by (simp add: processPayouts_def Let_def split: sum.splits)

lemma amount_join_user [simp]: "amount (join_user b u) = amount b"
  by (simp add: join_user_def bet.defs bet_row.defs)

lemma bet_option_join_user [simp]: "bet_option (join_user b u) = bet_option b"
  by (simp add: join_user_def bet.defs bet_row.defs)

lemma user_id_join_user [simp]: "user_id (join_user b u) = user_id b"
  by (simp add: join_user_def bet.defs bet_row.defs)

lemma getUserStats_mem: "getUserStats u s = Some x \<Longrightarrow> x \<in> set (users s) \<and> uid x = u"
  by (auto simp: getUserStats_def find_Some_iff)

lemma getUserBySlackId_mem: "getUserBySlackId su s = Some x \<Longrightarrow> x \<in> set (users s)"
  by (auto simp: getUserBySlackId_def find_Some_iff)

lemma getUserBetOnLine_mem:
  "getUserBetOnLine u l s = Some b \<Longrightarrow> b \<in> set (bets s) \<and> user_id b = u \<and> line_id b = l"
  by (auto simp: getUserBetOnLine_def find_Some_iff)


subsection \<open>One bet per member and line\<close>






lemma db_placeBet_Inr:
  "db_placeBet n u l opt s = Inr (s', row) \<Longrightarrow>
     s' = s\<lparr>bets := bets s @ [row]\<rparr> \<and> user_id row = u \<and> line_id row = l \<and>
     amount row = 1 \<and> opt = Some (bet_option row) \<and> bid row = n"
  by (cases opt) (auto simp: db_placeBet_def Let_def split: if_splits)

lemma placeBet_validate_state:
  "fst (placeBet_validate n u l opt s) = s \<or>
   (\<exists>user. getUserStats u s = Some user \<and> 1 \<le> balance user \<and>
      (let s2 = incrementUserStats u Total_bets 1 (updateUserBalance u (balance user - 1) s)
       in fst (placeBet_validate n u l opt s) = s2 \<or>
          (\<exists>row. fst (placeBet_validate n u l opt s) = s2\<lparr>bets := bets s2 @ [row]\<rparr> \<and>
             user_id row = u \<and> line_id row = l \<and> amount row = 1)))"
proof (cases "getUserStats u s")
  case None
  then show ?thesis by (simp add: placeBet_validate_def)
next
  case (Some user)
  note user = Some
  show ?thesis
  proof (cases "balance user < 1")
    case True
    with user show ?thesis by (simp add: placeBet_validate_def)
  next
    case False
    note bal = False
    show ?thesis
    proof (cases "getBettingLine l s")
      case None
      with user bal show ?thesis by (simp add: placeBet_validate_def)
    next
      case (Some line)
      note line = Some
      show ?thesis
      proof (cases "status line = Open")
        case False
        with user bal line show ?thesis by (simp add: placeBet_validate_def)
      next
        case True
        let ?s2 = "incrementUserStats u Total_bets 1 (updateUserBalance u (balance user - 1) s)"
        show ?thesis
        proof (cases "db_placeBet n u l opt ?s2")
          case (Inl e)
          with user bal line True have "fst (placeBet_validate n u l opt s) = ?s2"
            by (simp add: placeBet_validate_def Let_def)
          with user bal show ?thesis by (simp add: Let_def)
        next
          case (Inr p)
          obtain s3 row where p: "p = (s3, row)" by (cases p)
          from db_placeBet_Inr [OF Inr [unfolded p]]
          have r: "s3 = ?s2\<lparr>bets := bets ?s2 @ [row]\<rparr>" "user_id row = u" "line_id row = l"
            "amount row = 1" by simp_all
          from user bal line True Inr p have "fst (placeBet_validate n u l opt s) = s3"
            by (simp add: placeBet_validate_def Let_def)
          with r user bal show ?thesis by (auto simp: Let_def)
        qed
      qed
    qed
  qed
qed




lemma handleReactionAdded_state:
  "fst (handleReactionAdded su r l nu nm nb s) = s \<or>
   (\<exists>s1 u l' opt. (s1 = s \<or> createUser nu su nm s = Inr s1) \<and>
      fst (handleReactionAdded su r l nu nm nb s) = fst (placeBet nb u l' opt s1))"
proof (cases "getBettingLine l s")
  case None
  then show ?thesis by (simp add: handleReactionAdded_def)
next
  case (Some line)
  note line = Some
  show ?thesis
  proof (cases "status line = Open")
    case False
    with line show ?thesis by (simp add: handleReactionAdded_def)
  next
    case True
    note opn = True
    show ?thesis
    proof (cases "findIndex (\<lambda>e. strict_eq e (reactedEmoji r)) (emojis line)")
      case None
      with line opn show ?thesis by (simp add: handleReactionAdded_def)
    next
      case (Some i)
      note idx = Some
      show ?thesis
      proof (cases "getUserBySlackId su s")
        case (Some x)
        with line opn idx
        have "fst (handleReactionAdded su r l nu nm nb s) =
              fst (placeBet nb (uid x) (lid line) (js_index (options line) i) s)"
          by (simp add: handleReactionAdded_def Let_def split: prod.splits sum.splits)
        then show ?thesis by blast
      next
        case None
        note nouser = None
        show ?thesis
        proof (cases "createUser nu su nm s")
          case (Inl e)
          with line opn idx nouser show ?thesis
            by (simp add: handleReactionAdded_def Let_def)
        next
          case (Inr s1)
          with line opn idx nouser
          have "fst (handleReactionAdded su r l nu nm nb s) =
                fst (placeBet nb nu (lid line) (js_index (options line) i) s1)"
            by (simp add: handleReactionAdded_def Let_def split: prod.splits sum.splits)
          with Inr show ?thesis by blast
        qed
      qed
    qed
  qed
qed


lemma handleReactionRemoved_eq:
  "handleReactionRemoved su r l s =
     (case getBettingLine l s of
        None \<Rightarrow> s
      | Some line \<Rightarrow>
          (case getUserBySlackId su s of
             None \<Rightarrow> s
           | Some m \<Rightarrow>
               (case getUserBetOnLine (uid m) l s of
                  None \<Rightarrow> s
                | Some stake \<Rightarrow>
                    if status line = Open \<and> decoded_option r line = Some (bet_option stake)
                    then incrementUserStats (uid m) Total_bets (- 1)
                           (updateUserBalance (uid m) (balance m + amount stake)
                              (delete_bet (bid stake) s))
                    else s)))"
  by (simp add: handleReactionRemoved_def decoded_option_def Let_def split: option.splits)


lemma bets_handleResolveLine [simp]: "bets (fst (handleResolveLine l w s)) = bets s"
proof (cases "processPayouts l w s")
  case (Pair s1 r)
  then have "bets s1 = bets s" using bets_processPayouts [of l w s] by simp
  with Pair show ?thesis
    by (simp add: handleResolveLine_def split: option.splits sum.splits)
qed

lemma bets_handleCreateLine [simp]: "bets (handleCreateLine i q os u s) = bets s"
  by (auto simp: handleCreateLine_def split: sum.splits dest: createBettingLine_frame)

lemma bets_handleLockLine [simp]: "bets (handleLockLine l s) = bets s"
  by (simp add: handleLockLine_def split: option.splits)

lemma bets_handleStats [simp]: "bets (handleStats su i nm s) = bets s"
  by (auto simp: handleStats_def split: option.splits sum.splits dest: createUser_frame)




subsection \<open>Balances never go below zero\<close>

lemma nonneg_updateUserBalance:
  "balances_nonneg s \<Longrightarrow> 0 \<le> n \<Longrightarrow> balances_nonneg (updateUserBalance u n s)"
  by (auto simp: balances_nonneg_def updateUserBalance_def)

lemma nonneg_balances: "balances_nonneg s = (\<forall>x \<in> set (map balance (users s)). 0 \<le> x)"
  by (auto simp: balances_nonneg_def)

lemma balances_incrementUserStats:
  "map balance (users (incrementUserStats u f n s)) = map balance (users s)"
  by (cases f) (simp_all add: incrementUserStats_def o_def if_distrib cong: if_cong)

lemma nonneg_incrementUserStats [simp]:
  "balances_nonneg (incrementUserStats u f n s) = balances_nonneg s"
  unfolding nonneg_balances balances_incrementUserStats ..

lemma nonneg_createUser:
  "createUser i su nm s = Inr s' \<Longrightarrow> balances_nonneg s \<Longrightarrow> balances_nonneg s'"
  by (auto simp: balances_nonneg_def dest!: createUser_frame)

lemma nonneg_balance:
  "balances_nonneg s \<Longrightarrow> getUserStats u s = Some x \<Longrightarrow> 0 \<le> balance x"
  by (auto simp: balances_nonneg_def dest: getUserStats_mem)

lemma nonneg_credit_winner:
  "balances_nonneg s \<Longrightarrow> 0 \<le> payout_amount p \<Longrightarrow> balances_nonneg (credit_winner p s)"
  by (auto simp: credit_winner_def split: option.splits
           intro!: nonneg_updateUserBalance dest: nonneg_balance)

lemma nonneg_debit_loser: "balances_nonneg s \<Longrightarrow> balances_nonneg (debit_loser b s)"
  by (auto simp: debit_loser_def split: option.splits intro!: nonneg_updateUserBalance)

lemma nonneg_fold_credit:
  "balances_nonneg s \<Longrightarrow> \<forall>p \<in> set ps. 0 \<le> payout_amount p \<Longrightarrow>
     balances_nonneg (fold credit_winner ps s)"
  by (induction ps arbitrary: s) (simp_all add: nonneg_credit_winner)

lemma nonneg_fold_debit: "balances_nonneg s \<Longrightarrow> balances_nonneg (fold debit_loser bs s)"
  by (induction bs arbitrary: s) (simp_all add: nonneg_debit_loser)

lemma rows_unit: "unit_bets s \<Longrightarrow> r \<in> set (getBetsForLine l s) \<Longrightarrow> amount r = 1"
  by (auto simp: unit_bets_def getBetsForLine_def)

lemma compute_payouts_Inl: "group_bets bs [] = Inl e \<Longrightarrow> compute_payouts bs w = Inl e"
  by (simp add: compute_payouts_def)

lemma payouts_nonneg:
  assumes r: "compute_payouts bs w = Inr d" and a: "\<forall>b \<in> set bs. 0 \<le> amount b"
  shows "\<forall>p \<in> set (payouts d). 0 \<le> payout_amount p"
proof (cases "group_bets bs []")
  case (Inl e)
  with r show ?thesis by (simp add: compute_payouts_Inl)
next
  case (Inr g)
  have "0 \<le> sum_list (map amount (losers_of bs w))"
    using a by (intro sum_list_nonneg) (auto simp: losers_of_def)
  then have "0 \<le> sum_list (map amount (losers_of bs w)) div int (length (winners_of bs w))"
    by (simp add: pos_imp_zdiv_nonneg_iff div_int_pos_iff)
  with r show ?thesis
    unfolding compute_payouts_grouped [OF Inr] Let_def
    by (auto simp: no_winners_def to_payout_def split: if_splits)
qed

lemma nonneg_processPayouts:
  assumes b: "balances_nonneg s" and u: "unit_bets s"
  shows "balances_nonneg (fst (processPayouts l w s))"
proof (cases "calculatePayouts l w s")
  case (Inl e)
  with b show ?thesis by (simp add: processPayouts_def)
next
  case (Inr d)
  then have "compute_payouts (getBetsForLine l s) w = Inr d"
    by (simp add: calculatePayouts_def split: option.splits)
  moreover have "\<forall>r \<in> set (getBetsForLine l s). 0 \<le> amount r"
    using rows_unit [OF u] by fastforce
  ultimately have "\<forall>p \<in> set (payouts d). 0 \<le> payout_amount p" by (rule payouts_nonneg)
  with b have "balances_nonneg (fold credit_winner (payouts d) s)" by (simp add: nonneg_fold_credit)
  then show ?thesis
    using Inr by (simp add: processPayouts_def Let_def nonneg_fold_debit)
qed

lemma unit_delete: "unit_bets s \<Longrightarrow> unit_bets (delete_bet i s)"
  by (simp add: unit_bets_def delete_bet_def)

lemma ledger_placeBet_validate:
  assumes b: "balances_nonneg s" and u: "unit_bets s"
  shows "balances_nonneg (fst (placeBet_validate n m l opt s)) \<and>
         unit_bets (fst (placeBet_validate n m l opt s))"
proof -
  from placeBet_validate_state [of n m l opt s] show ?thesis
  proof (elim disjE exE conjE)
    assume "fst (placeBet_validate n m l opt s) = s"
    with b u show ?thesis by simp
  next
    fix user
    let ?s2 = "incrementUserStats m Total_bets 1 (updateUserBalance m (balance user - 1) s)"
    assume bal: "1 \<le> balance user"
    assume st: "let s2 = ?s2
       in fst (placeBet_validate n m l opt s) = s2 \<or>
          (\<exists>row. fst (placeBet_validate n m l opt s) = s2\<lparr>bets := bets s2 @ [row]\<rparr> \<and>
             user_id row = m \<and> line_id row = l \<and> amount row = 1)"
    have b2: "balances_nonneg ?s2" using b bal by (simp add: nonneg_updateUserBalance)
    have u2: "unit_bets ?s2" using u by (simp add: unit_bets_def)
    from st show ?thesis
      unfolding Let_def
    proof (elim disjE exE conjE)
      assume "fst (placeBet_validate n m l opt s) = ?s2"
      with b2 u2 show ?thesis by simp
    next
      fix row
      assume "fst (placeBet_validate n m l opt s) = ?s2\<lparr>bets := bets ?s2 @ [row]\<rparr>"
        and "amount row = 1"
      with b2 u2 show ?thesis by (simp add: balances_nonneg_def unit_bets_def)
    qed
  qed
qed

lemma ledger_placeBet:
  assumes b: "balances_nonneg s" and u: "unit_bets s"
  shows "balances_nonneg (fst (placeBet n m l opt s)) \<and> unit_bets (fst (placeBet n m l opt s))"
proof (cases "getUserBetOnLine m l s")
  case None
  with ledger_placeBet_validate [OF b u] show ?thesis by (simp add: placeBet_def)
next
  case (Some e)
  let ?s1 = "delete_bet (bid e) s"
  have b1: "balances_nonneg ?s1" using b by (simp add: balances_nonneg_def)
  have u1: "unit_bets ?s1" using u by (rule unit_delete)
  from getUserBetOnLine_mem [OF Some] u have amt: "amount e = 1" by (simp add: unit_bets_def)
  show ?thesis
  proof (cases "getUserStats m ?s1")
    case None
    with Some b b1 u u1 show ?thesis by (simp add: placeBet_def Let_def)
  next
    case (Some user)
    let ?s3 = "incrementUserStats m Total_bets (- 1)
                 (updateUserBalance m (balance user + amount e) ?s1)"
    have "0 \<le> balance user" using b1 Some by (rule nonneg_balance)
    then have b3: "balances_nonneg ?s3" using b1 amt by (simp add: nonneg_updateUserBalance)
    have u3: "unit_bets ?s3" using u1 by (simp add: unit_bets_def)
    from ledger_placeBet_validate [OF b3 u3] \<open>getUserBetOnLine m l s = Some e\<close> Some b u
    show ?thesis by (simp add: placeBet_def Let_def)
  qed
qed

lemma ledger_handleReactionAdded:
  assumes b: "balances_nonneg s" and u: "unit_bets s"
  shows "balances_nonneg (fst (handleReactionAdded su r l nu nm nb s)) \<and>
         unit_bets (fst (handleReactionAdded su r l nu nm nb s))"
proof -
  from handleReactionAdded_state [of su r l nu nm nb s] show ?thesis
  proof (elim disjE exE conjE)
    assume "fst (handleReactionAdded su r l nu nm nb s) = s"
    with b u show ?thesis by simp
  next
    fix s1 m l' opt
    assume st: "fst (handleReactionAdded su r l nu nm nb s) = fst (placeBet nb m l' opt s1)"
    assume "s1 = s"
    with st ledger_placeBet [OF b u] show ?thesis by simp
  next
    fix s1 m l' opt
    assume st: "fst (handleReactionAdded su r l nu nm nb s) = fst (placeBet nb m l' opt s1)"
    assume c: "createUser nu su nm s = Inr s1"
    then have b1: "balances_nonneg s1" using b by (rule nonneg_createUser)
    from c have "bets s1 = bets s" by (simp add: createUser_frame)
    with u have u1: "unit_bets s1" by (simp add: unit_bets_def)
    from st ledger_placeBet [OF b1 u1] show ?thesis by simp
  qed
qed

lemma ledger_handleReactionRemoved:
  assumes b: "balances_nonneg s" and u: "unit_bets s"
  shows "balances_nonneg (handleReactionRemoved su r l s) \<and>
         unit_bets (handleReactionRemoved su r l s)"
proof -
  have "balances_nonneg (incrementUserStats (uid m) Total_bets (- 1)
          (updateUserBalance (uid m) (balance m + amount e) (delete_bet (bid e) s))) \<and>
        unit_bets (incrementUserStats (uid m) Total_bets (- 1)
          (updateUserBalance (uid m) (balance m + amount e) (delete_bet (bid e) s)))"
    if m: "getUserBySlackId su s = Some m" and e: "getUserBetOnLine (uid m) l s = Some e"
    for m e
  proof -
    from getUserBySlackId_mem [OF m] b have "0 \<le> balance m" by (simp add: balances_nonneg_def)
    moreover from getUserBetOnLine_mem [OF e] u have "amount e = 1" by (simp add: unit_bets_def)
    moreover have "balances_nonneg (delete_bet (bid e) s)" using b by (simp add: balances_nonneg_def)
    ultimately show ?thesis
      using unit_delete [OF u, of "bid e"] by (simp add: nonneg_updateUserBalance unit_bets_def)
  qed
  with b u show ?thesis
    unfolding handleReactionRemoved_eq by (simp split: option.splits)
qed

lemma ledger_handleResolveLine:
  assumes b: "balances_nonneg s" and u: "unit_bets s"
  shows "balances_nonneg (fst (handleResolveLine l w s)) \<and>
         unit_bets (fst (handleResolveLine l w s))"
proof -
  obtain s1 r where p: "processPayouts l w s = (s1, r)" by (cases "processPayouts l w s")
  from nonneg_processPayouts [OF b u, of l w] p have b1: "balances_nonneg s1" by simp
  then have "balances_nonneg (updateBettingLineStatus i st x s1)" for i st x
    by (simp add: balances_nonneg_def)
  with b b1 p have "balances_nonneg (fst (handleResolveLine l w s))"
    by (simp add: handleResolveLine_def split: option.splits sum.splits)
  moreover from u have "unit_bets (fst (handleResolveLine l w s))"
    by (simp add: unit_bets_def)
  ultimately show ?thesis ..
qed

lemma users_handleCreateLine [simp]: "users (handleCreateLine i q os c s) = users s"
  by (auto simp: handleCreateLine_def split: sum.splits dest: createBettingLine_frame)

lemma users_handleLockLine [simp]: "users (handleLockLine l s) = users s"
  by (simp add: handleLockLine_def split: option.splits)

lemma nonneg_handleStats: "balances_nonneg s \<Longrightarrow> balances_nonneg (handleStats su i nm s)"
  by (auto simp: handleStats_def split: option.splits sum.splits intro: nonneg_createUser)

lemma ledger_step:
  assumes b: "balances_nonneg s" and u: "unit_bets s"
  shows "balances_nonneg (step ev s) \<and> unit_bets (step ev s)"
proof (cases ev)
  case (Create_line i q os c)
  with b u show ?thesis by (simp add: balances_nonneg_def unit_bets_def)
next
  case (Lock_line l)
  with b u show ?thesis by (simp add: balances_nonneg_def unit_bets_def)
next
  case (Resolve_line l w)
  with ledger_handleResolveLine [OF b u] show ?thesis by simp
next
  case (Stats su i nm)
  with nonneg_handleStats [OF b] u show ?thesis by (simp add: unit_bets_def)
next
  case (Reaction_added su r l nu nm nb)
  with ledger_handleReactionAdded [OF b u] show ?thesis by simp
next
  case (Reaction_removed su r l)
  with ledger_handleReactionRemoved [OF b u] show ?thesis by simp
next
  case (Place_bet n m l opt)
  with ledger_placeBet [OF b u] show ?thesis by simp
next
  case (Process_payouts l w)
  with nonneg_processPayouts [OF b u] u show ?thesis by (simp add: unit_bets_def)
qed

lemma ledger_run:
  "balances_nonneg s \<Longrightarrow> unit_bets s \<Longrightarrow> balances_nonneg (run evs s) \<and> unit_bets (run evs s)"
  unfolding run_def
proof (induction evs arbitrary: s)
  case Nil
  then show ?case by simp
next
  case (Cons ev evs)
  from ledger_step [OF Cons.prems] Cons.IH [of "step ev s"] show ?case by simp
qed

subsection \<open>Placing a stake\<close>

lemma getBettingLine_lid: "getBettingLine l s = Some line \<Longrightarrow> lid line = l"
  by (auto simp: getBettingLine_def find_Some_iff)

lemma placeBet_validate_insufficient:
  "getUserStats u s = Some acct \<Longrightarrow> balance acct < 1 \<Longrightarrow>
     placeBet_validate n u l opt s = (s, Inl InsufficientBalance)"
  by (simp add: placeBet_validate_def)

lemma placeBet_insufficient:
  "getUserBetOnLine u l s = None \<Longrightarrow> getUserStats u s = Some acct \<Longrightarrow> balance acct < 1 \<Longrightarrow>
     placeBet n u l opt s = (s, Inl InsufficientBalance)"
  by (simp add: placeBet_def placeBet_validate_insufficient)

lemma getUserStats_updateUserBalance:
  "getUserStats u (updateUserBalance u n s) =
     map_option (\<lambda>x. x\<lparr>balance := n\<rparr>) (getUserStats u s)"
proof -
  have "find (\<lambda>x. uid x = u) (map (\<lambda>x. if uid x = u then x\<lparr>balance := n\<rparr> else x) xs) =
        map_option (\<lambda>x. x\<lparr>balance := n\<rparr>) (find (\<lambda>x. uid x = u) xs)" for xs
    by (induction xs) auto
  then show ?thesis by (simp add: getUserStats_def updateUserBalance_def)
qed

lemma getUserStats_incrementUserStats:
  "map_option balance (getUserStats u (incrementUserStats u f n s)) =
     map_option balance (getUserStats u s)"
proof -
  have "map_option balance (find (\<lambda>x. uid x = u) (map (\<lambda>x. if uid x = u then g x else x) xs)) =
        map_option balance (find (\<lambda>x. uid x = u) xs)"
    if "\<And>x. uid (g x) = uid x" "\<And>x. balance (g x) = balance x" for xs and g :: "user \<Rightarrow> user"
    using that by (induction xs) auto
  then show ?thesis
    by (cases f) (simp_all add: getUserStats_def incrementUserStats_def)
qed

lemma getUserStats_delete_bet [simp]: "getUserStats u (delete_bet i s) = getUserStats u s"
  by (simp add: getUserStats_def)

lemma placeBet_validate_not_insufficient:
  "getUserStats u s = Some acct \<Longrightarrow> 1 \<le> balance acct \<Longrightarrow>
     snd (placeBet_validate n u l opt s) \<noteq> Inl InsufficientBalance"
  by (auto simp: placeBet_validate_def db_placeBet_def Let_def
           split: option.splits sum.splits if_splits)

lemma placeBet_switch_not_insufficient:
  assumes e: "getUserBetOnLine u l s = Some e" and d: "Some (bet_option e) \<noteq> opt"
    and a: "getUserStats u s = Some acct" and b: "1 \<le> balance acct + amount e"
  shows "snd (placeBet n u l opt s) \<noteq> Inl InsufficientBalance"
proof -
  let ?s1 = "delete_bet (bid e) s"
  let ?s3 = "incrementUserStats u Total_bets (- 1)
               (updateUserBalance u (balance acct + amount e) ?s1)"
  have "map_option balance (getUserStats u ?s3) = Some (balance acct + amount e)"
    using a by (simp add: getUserStats_incrementUserStats getUserStats_updateUserBalance)
  then obtain acct' where a': "getUserStats u ?s3 = Some acct'"
    and b': "balance acct' = balance acct + amount e" by auto
  from b b' have "1 \<le> balance acct'" by simp
  with a' have "snd (placeBet_validate n u l opt ?s3) \<noteq> Inl InsufficientBalance"
    by (rule placeBet_validate_not_insufficient)
  with e d a show ?thesis by (simp add: placeBet_def Let_def)
qed

subsection \<open>What holds of the payouts when no option names an inherited member\<close>

lemma payout_identities:
  assumes names: "\<forall>b \<in> set bs. bet_option b \<notin> set object_prototype_keys"
    and amounts: "\<forall>b \<in> set bs. 0 \<le> amount b"
    and win: "winners_of bs w \<noteq> []" and lose: "losers_of bs w \<noteq> []"
  shows "\<exists>d perWinner rest.
           compute_payouts bs w = Inr d \<and>
           totalPot d = sum_list (map amount (losers_of bs w)) \<and>
           payoutPerWinner d = Some perWinner \<and>
           perWinner = totalPot d div int (length (winners_of bs w)) \<and>
           remainder d = Some rest \<and>
           rest = totalPot d mod int (length (winners_of bs w)) \<and>
           map p_userId (payouts d) = map user_id (winners_of bs w) \<and>
           (\<forall>p \<in> set (payouts d). payout_amount p = perWinner) \<and>
           perWinner * int (length (winners_of bs w)) + rest = totalPot d"
proof -
  from group_bets_total [OF names] obtain g where g: "group_bets bs [] = Inr g" by blast
  let ?pot = "sum_list (map amount (losers_of bs w))"
  let ?n = "int (length (winners_of bs w))"
  have "0 \<le> ?pot" using amounts by (intro sum_list_nonneg) (auto simp: losers_of_def)
  moreover have "0 < ?n" using win by simp
  ultimately have sm: "?pot smod ?n = ?pot mod ?n"
    by (simp add: smod_int_alt_def sgn_if)
  show ?thesis
    unfolding compute_payouts_grouped [OF g] Let_def
    using win lose sm by (simp add: to_payout_def o_def)
qed

lemma calculatePayouts_found:
  "getBettingLine l s = Some line \<Longrightarrow>
     calculatePayouts l w s = compute_payouts (getBetsForLine l s) w"
  by (simp add: calculatePayouts_def)

lemma inherited_option_throws:
  "\<exists>b \<in> set bs. bet_option b \<in> set object_prototype_keys \<Longrightarrow>
     compute_payouts bs w = Inl TypeError"
  by (rule compute_payouts_Inl) (simp add: group_bets_throws)

lemma losing_stake_counted:
  assumes names: "\<forall>b \<in> set bs. bet_option b \<notin> set object_prototype_keys"
    and w: "w \<notin> set object_prototype_keys"
    and b: "b \<in> set bs" "bet_option b \<noteq> w"
  shows "b \<in> set (losers_of bs w) \<and>
         (\<exists>d. compute_payouts bs w = Inr d \<and>
              totalPot d = sum_list (map amount (losers_of bs w)))"
proof -
  from group_bets_total [OF names] obtain g where g: "group_bets bs [] = Inr g" by blast
  from b have l: "b \<in> set (losers_of bs w)" by (simp add: losers_of_def)
  then have "losers_of bs w \<noteq> []" by auto
  with l w show ?thesis
    unfolding compute_payouts_grouped [OF g] Let_def by (simp add: no_winners_def)
qed

lemma placeBet_validate_accepts:
  assumes acct: "getUserStats u s = Some acct" and bal: "1 \<le> balance acct"
    and line: "getBettingLine l s = Some line" and opn: "status line = Open"
    and fresh: "\<forall>b \<in> set (bets s). bid b \<noteq> n"
  shows "\<exists>s' row. placeBet_validate n u l (Some opt) s = (s', Inr row) \<and>
           bet_option row = opt \<and> amount row = 1 \<and> row \<in> set (bets s')"
  using assms by (simp add: placeBet_validate_def db_placeBet_def Let_def)

lemma placeBet_accepts_any_option:
  assumes acct: "getUserStats u s = Some acct" and bal: "1 \<le> balance acct"
    and line: "getBettingLine l s = Some line" and opn: "status line = Open"
    and fresh: "\<forall>b \<in> set (bets s). bid b \<noteq> n"
    and other: "\<forall>e. getUserBetOnLine u l s = Some e \<longrightarrow> bet_option e \<noteq> opt \<and> 0 \<le> amount e"
  shows "\<exists>s' row. placeBet n u l (Some opt) s = (s', Inr row) \<and>
           bet_option row = opt \<and> amount row = 1 \<and> row \<in> set (bets s')"
proof (cases "getUserBetOnLine u l s")
  case None
  with placeBet_validate_accepts [OF acct bal line opn fresh, of opt] show ?thesis
    by (simp add: placeBet_def)
next
  case (Some e)
  with other have d: "bet_option e \<noteq> opt" and a: "0 \<le> amount e" by simp_all
  let ?s3 = "incrementUserStats u Total_bets (- 1)
               (updateUserBalance u (balance acct + amount e) (delete_bet (bid e) s))"
  have "map_option balance (getUserStats u ?s3) = Some (balance acct + amount e)"
    using acct by (simp add: getUserStats_incrementUserStats getUserStats_updateUserBalance)
  then obtain acct' where a': "getUserStats u ?s3 = Some acct'"
    and b': "balance acct' = balance acct + amount e" by auto
  from bal a b' have bal': "1 \<le> balance acct'" by simp
  have line': "getBettingLine l ?s3 = Some line" using line by (simp add: getBettingLine_def)
  have fresh': "\<forall>b \<in> set (bets ?s3). bid b \<noteq> n" using fresh by (simp add: delete_bet_def)
  from placeBet_validate_accepts [OF a' bal' line' opn fresh', of opt] Some d acct
  show ?thesis by (simp add: placeBet_def Let_def)
qed

subsection \<open>What \<^verbatim>\<open>generateEmojis\<close> returns for the other options\<close>

lemma generateEmojis_length: "length (generateEmojis opts) = length opts"
  by (simp add: generateEmojis_def)

lemma customEmojis_nonempty: "map_of customEmojis k = Some v \<Longrightarrow> v \<noteq> []"
  by (auto simp: customEmojis_def split: if_splits)

lemma defaultEmojis_nonempty: "i < 10 \<Longrightarrow> defaultEmojis ! i \<noteq> []"
proof -
  assume i: "i < 10"
  have all: "\<forall>x \<in> set defaultEmojis. x \<noteq> []" by (simp add: defaultEmojis_def)
  have "length defaultEmojis = 10" by (simp add: defaultEmojis_def)
  with i have "defaultEmojis ! i \<in> set defaultEmojis" by (intro nth_mem) simp
  with all show ?thesis by blast
qed

lemma generateEmojis_nth:
  assumes i: "i < length opts"
    and names: "toLowerCase (opts ! i) \<notin> set object_prototype_keys"
  shows "generateEmojis opts ! i =
           (case map_of customEmojis (toLowerCase (opts ! i)) of
              Some v \<Rightarrow> Sym v
            | None \<Rightarrow> if i < 10 then Sym (defaultEmojis ! i)
                      else Sym ('':'' @ string_of_nat (i + 1) @ '':''))"
proof -
  have "generateEmojis opts ! i = emoji_for i (opts ! i)"
    using i by (simp add: generateEmojis_def nth_enumerate_eq)
  also have "\<dots> = (case map_of customEmojis (toLowerCase (opts ! i)) of
              Some v \<Rightarrow> Sym v
            | None \<Rightarrow> if i < 10 then Sym (defaultEmojis ! i)
                      else Sym ('':'' @ string_of_nat (i + 1) @ '':''))"
  proof (cases "map_of customEmojis (toLowerCase (opts ! i))")
    case (Some v)
    with customEmojis_nonempty [OF Some] show ?thesis
      by (simp add: emoji_for_def Let_def lookup_symbol_def get_prop_def js_or_def truthy_def)
  next
    case None
    have len: "length defaultEmojis = 10" by (simp add: defaultEmojis_def)
    from None names defaultEmojis_nonempty [of i] show ?thesis
      by (simp add: emoji_for_def Let_def lookup_symbol_def get_prop_def js_or_def truthy_def
                    js_index_def len)
  qed
  finally show ?thesis .
qed

subsection \<open>Facts about the concrete states\<close>

lemma three_members_reachable:
  "run [Stats ''U1'' ''m1'' ''M1'', Stats ''U2'' ''m2'' ''M2'', Stats ''U3'' ''m3'' ''M3'',
        Create_line ''L'' ''Will Team A score over 100?'' [''over'', ''under''] ''U1''] empty_db
   = three_members"
  by code_simp

lemma placeBet_on_locked_line_retires_stake:
  "map (\<lambda>u. (uid u, balance u, total_bets u)) (users locked_with_stake) =
     [(''m1'', 19, 1), (''m2'', 20, 0), (''m3'', 20, 0)] \<and>
   map bet_option (bets locked_with_stake) = [''over''] \<and>
   (case placeBet ''b2'' ''m1'' ''L'' (Some ''under'') locked_with_stake of
      (s', r) \<Rightarrow>
        r = Inl NotAcceptingBets \<and> bets s' = [] \<and>
        map (\<lambda>u. (uid u, balance u, total_bets u)) (users s') =
          [(''m1'', 20, 0), (''m2'', 20, 0), (''m3'', 20, 0)])"
  by code_simp

subsection \<open>Switching, repeating and overlapping stakes\<close>

lemma placeBet_resume_sequential:
  "placeBet n u l opt s = placeBet_resume n u l opt (getUserBetOnLine u l s) s"
  by (simp add: placeBet_def placeBet_resume_def)




section \<open>The claims\<close>

text \<open>
  C1. The claim: a second \<^verbatim>\<open>/bet resolve\<close> of a line is refused before any payout logic
  runs, so balances and statistics stay as they are. The handler reads the line and
  checks the winning option, but never looks at the status: with one stake on each side
  of line \<^verbatim>\<open>L\<close>, the first resolution sets the status to resolved and leaves the
  balances at 20 and 18; the second one goes through with the same answer and pays
  again, to 21 and 17, and the winner's \<^verbatim>\<open>total_winnings\<close> reaches 2.
\<close>

theorem second_resolve_pays_again:
  "(case handleResolveLine ''L'' ''over'' two_stakes of
      (s1, r1) \<Rightarrow>
        map status (betting_lines s1) = [Resolved] \<and>
        map balance (users s1) = [20, 18, 20] \<and>
        (case handleResolveLine ''L'' ''over'' s1 of
           (s2, r2) \<Rightarrow>
             r2 = r1 \<and> (case r2 of Resolve_done d \<Rightarrow> totalPot d = 1 | _ \<Rightarrow> False) \<and>
             map balance (users s2) = [21, 17, 20] \<and>
             map total_winnings (users s2) = [2, 0, 0]))"
  by code_simp

text \<open>
  C2. The claim: with at least one winning and one losing stake the payout result
  satisfies the integer identities of the pot. For stakes whose options are not names
  of members of \<^verbatim>\<open>Object.prototype\<close> this is lemma \<open>payout_identities\<close>. A line
  created with the options \<^verbatim>\<open>over\<close> and \<^verbatim>\<open>toString\<close> gets the symbols of \<^verbatim>\<open>over\<close> and
  \<^verbatim>\<open>:b:\<close>; after one member reacts with each, \<^verbatim>\<open>calculatePayouts\<close> throws a
  \<^verbatim>\<open>TypeError\<close> on the second stake, and \<^verbatim>\<open>/bet resolve\<close> reports the error and leaves
  the store as it was.
\<close>

theorem inherited_option_breaks_resolution:
  "map emojis (betting_lines inherited_name_stakes) =
     [[Sym '':chart_with_upwards_trend:'', Sym '':chart_with_downwards_trend:''],
      [Sym '':chart_with_upwards_trend:'', Sym '':b:'']] \<and>
   map (\<lambda>b. (user_id b, line_id b, bet_option b)) (bets inherited_name_stakes) =
     [(''m1'', ''T'', ''over''), (''m2'', ''T'', ''toString'')] \<and>
   calculatePayouts ''T'' ''over'' inherited_name_stakes = Inl TypeError \<and>
   handleResolveLine ''T'' ''over'' inherited_name_stakes =
     (inherited_name_stakes, Resolve_error TypeError)"
  by code_simp

text \<open>
  C3. The scenario of the test script: options \<^verbatim>\<open>over\<close> and \<^verbatim>\<open>under\<close>, three members
  who start at 20, stakes on \<^verbatim>\<open>over\<close>, \<^verbatim>\<open>under\<close>, \<^verbatim>\<open>over\<close>, resolution with winner
  \<^verbatim>\<open>over\<close>. The pot is 1, the winners are the first and the third member, each winner
  gets 0 and the remainder is 1. The final balances are 19, 18 and 19: the loser paid
  one unit when the stake was placed and is debited the stake once more at resolution.
\<close>

theorem scenario_over_under:
  "map balance (users three_members) = [20, 20, 20] \<and>
   map (\<lambda>b. (user_id b, bet_option b)) (bets three_stakes) =
     [(''m1'', ''over''), (''m2'', ''under''), (''m3'', ''over'')] \<and>
   (case processPayouts ''L'' ''over'' three_stakes of
      (s', Inr d) \<Rightarrow>
        totalPot d = 1 \<and> map p_userId (payouts d) = [''m1'', ''m3''] \<and>
        payoutPerWinner d = Some 0 \<and> remainder d = Some 1 \<and>
        map (\<lambda>u. (uid u, balance u)) (users s') = [(''m1'', 19), (''m2'', 18), (''m3'', 19)]
    | (s', Inl e) \<Rightarrow> False)"
  by code_simp

text \<open>The final balances of the scenario are not 19, 19 and 19, as C3 has it.\<close>

theorem scenario_final_balances_counterexample:
  "map balance (users (fst (processPayouts ''L'' ''over'' three_stakes))) \<noteq> [19, 19, 19]"
  by code_simp

text \<open>
  C4. A reaction added on a line that is not open is dropped: the handler returns
  before \<^verbatim>\<open>placeBet\<close>, the store is unchanged (also when the member holds a stake on
  another option of the line) and nothing is sent to the member.
\<close>

theorem reaction_on_closed_line_ignored:
  "getBettingLine l s = Some line \<Longrightarrow> status line \<noteq> Open \<Longrightarrow>
     handleReactionAdded su r l nu nm nb s = (s, Ignored)"
  by (simp add: handleReactionAdded_def)

theorem reaction_on_closed_line_ignored_witness:
  "map_option status (getBettingLine ''L'' locked_with_stake) = Some Locked \<and>
   map bet_option (bets locked_with_stake) = [''over''] \<and>
   handleReactionAdded ''U1'' ''chart_with_downwards_trend'' ''L'' ''n'' ''M1'' ''b2''
     locked_with_stake = (locked_with_stake, Ignored)"
proof -
  have st: "map_option status (getBettingLine ''L'' locked_with_stake) = Some Locked"
    by code_simp
  then obtain line where h1: "getBettingLine ''L'' locked_with_stake = Some line"
    and h2: "status line \<noteq> Open" by auto
  have b: "map bet_option (bets locked_with_stake) = [''over'']" by code_simp
  show ?thesis using st b reaction_on_closed_line_ignored [OF h1 h2] by simp
qed

text \<open>
  On the locked line \<^verbatim>\<open>L\<close>, where the first member holds a stake on \<^verbatim>\<open>over\<close>, the
  reaction for \<^verbatim>\<open>under\<close> is ignored; it is not refused with the message that the line
  no longer accepts bets, as C4 has it.
\<close>

theorem locked_line_reaction_counterexample:
  "map status (betting_lines locked_with_stake) = [Locked] \<and>
   snd (handleReactionAdded ''U1'' ''chart_with_downwards_trend'' ''L'' ''n'' ''M1'' ''b2''
          locked_with_stake) = Ignored \<and>
   snd (handleReactionAdded ''U1'' ''chart_with_downwards_trend'' ''L'' ''n'' ''M1'' ''b2''
          locked_with_stake) \<noteq> Bet_refused NotAcceptingBets"
  by code_simp

text \<open>
  C5. The balance is checked after an existing stake on another option has been
  retired and refunded. For a member whose balance is below 1 and whose reaction stands
  for an option of an open line: without a stake on that line the reaction is refused
  with the insufficient-balance error and the store is unchanged; with a stake on
  another option whose refund brings the balance to 1 or more, the reaction is not
  refused for insufficient balance.
\<close>

theorem balance_check_after_retirement:
  assumes line: "getBettingLine l s = Some line" and opn: "status line = Open"
    and idx: "findIndex (\<lambda>e. strict_eq e (reactedEmoji r)) (emojis line) = Some i"
    and m: "getUserBySlackId su s = Some m" and acct: "getUserStats (uid m) s = Some m"
    and low: "balance m < 1"
  shows "(getUserBetOnLine (uid m) l s = None \<longrightarrow>
            handleReactionAdded su r l nu nm nb s = (s, Bet_refused InsufficientBalance)) \<and>
         (\<forall>e. getUserBetOnLine (uid m) l s = Some e \<and>
               Some (bet_option e) \<noteq> js_index (options line) i \<and>
               1 \<le> balance m + amount e \<longrightarrow>
            snd (handleReactionAdded su r l nu nm nb s) \<noteq> Bet_refused InsufficientBalance)"
proof (intro conjI impI allI)
  assume "getUserBetOnLine (uid m) l s = None"
  from placeBet_insufficient [OF this acct low] line opn idx m getBettingLine_lid [OF line]
  show "handleReactionAdded su r l nu nm nb s = (s, Bet_refused InsufficientBalance)"
    by (simp add: handleReactionAdded_def Let_def)
next
  fix e
  assume "getUserBetOnLine (uid m) l s = Some e \<and>
          Some (bet_option e) \<noteq> js_index (options line) i \<and> 1 \<le> balance m + amount e"
  then have "snd (placeBet nb (uid m) l (js_index (options line) i) s) \<noteq> Inl InsufficientBalance"
    using placeBet_switch_not_insufficient [OF _ _ acct] by blast
  with line opn idx m getBettingLine_lid [OF line]
  show "snd (handleReactionAdded su r l nu nm nb s) \<noteq> Bet_refused InsufficientBalance"
    by (auto simp: handleReactionAdded_def Let_def split: prod.splits sum.splits)
qed

theorem balance_check_after_retirement_witness:
  "getUserBetOnLine ''m1'' ''K'' broke_member = None \<and>
   handleReactionAdded ''U1'' ''white_check_mark'' ''K'' ''n'' ''M1'' ''b2'' broke_member =
     (broke_member, Bet_refused InsufficientBalance) \<and>
   map_option bet_option (getUserBetOnLine ''m1'' ''L'' broke_member) = Some ''over'' \<and>
   snd (handleReactionAdded ''U1'' ''chart_with_downwards_trend'' ''L'' ''n'' ''M1'' ''b2''
          broke_member) \<noteq> Bet_refused InsufficientBalance"
proof -
  let ?m = "hd (users broke_member)"
  let ?L = "hd (betting_lines broke_member)"
  let ?K = "hd (tl (betting_lines broke_member))"
  let ?e = "hd (bets broke_member)"
  have m: "getUserBySlackId ''U1'' broke_member = Some ?m" by code_simp
  have acct: "getUserStats (uid ?m) broke_member = Some ?m" by code_simp
  have low: "balance ?m < 1" by code_simp
  have uid: "uid ?m = ''m1''" by code_simp
  have K: "getBettingLine ''K'' broke_member = Some ?K" by code_simp
  have K_open: "status ?K = Open" by code_simp
  have K_idx: "findIndex (\<lambda>e. strict_eq e (reactedEmoji ''white_check_mark'')) (emojis ?K) = Some 0"
    by code_simp
  have K_none: "getUserBetOnLine ''m1'' ''K'' broke_member = None" by code_simp
  have L: "getBettingLine ''L'' broke_member = Some ?L" by code_simp
  have L_open: "status ?L = Open" by code_simp
  have L_idx: "findIndex (\<lambda>e. strict_eq e (reactedEmoji ''chart_with_downwards_trend''))
                 (emojis ?L) = Some 1"
    by code_simp
  have L_stake: "getUserBetOnLine ''m1'' ''L'' broke_member = Some ?e" by code_simp
  have L_opt: "map_option bet_option (getUserBetOnLine ''m1'' ''L'' broke_member) = Some ''over''"
    by code_simp
  have L_diff: "Some (bet_option ?e) \<noteq> js_index (options ?L) 1" by code_simp
  have L_refund: "1 \<le> balance ?m + amount ?e" by code_simp
  from balance_check_after_retirement [OF K K_open K_idx m acct low, of "''n''" "''M1''" "''b2''"]
    K_none uid
  have first: "handleReactionAdded ''U1'' ''white_check_mark'' ''K'' ''n'' ''M1'' ''b2''
                 broke_member = (broke_member, Bet_refused InsufficientBalance)"
    by simp
  from balance_check_after_retirement [OF L L_open L_idx m acct low, of "''n''" "''M1''" "''b2''"]
    L_stake L_diff L_refund uid
  have second: "snd (handleReactionAdded ''U1'' ''chart_with_downwards_trend'' ''L'' ''n''
                  ''M1'' ''b2'' broke_member) \<noteq> Bet_refused InsufficientBalance"
    by simp
  from K_none first L_opt second show ?thesis by simp
qed

text \<open>
  A member at balance 0 with a stake on \<^verbatim>\<open>over\<close> reacts for \<^verbatim>\<open>under\<close> on the open line:
  the stake is switched and the balance is 0 again; the reaction is not refused with
  the insufficient-balance error, as C5 has it.
\<close>

theorem switch_at_balance_zero_counterexample:
  "map balance (users broke_member) = [0, 20, 20] \<and>
   map (\<lambda>b. (line_id b, bet_option b)) (bets broke_member) = [(''L'', ''over'')] \<and>
   (case handleReactionAdded ''U1'' ''chart_with_downwards_trend'' ''L'' ''n'' ''M1'' ''b2''
           broke_member of
      (s', Bet_placed row) \<Rightarrow>
        map (\<lambda>b. (line_id b, bet_option b)) (bets s') = [(''L'', ''under'')] \<and>
        map balance (users s') = [0, 20, 20]
    | (s', _) \<Rightarrow> False) \<and>
   snd (handleReactionAdded ''U1'' ''chart_with_downwards_trend'' ''L'' ''n'' ''M1'' ''b2''
          broke_member) \<noteq> Bet_refused InsufficientBalance"
  by code_simp




text \<open>
  C7. Balances never go below zero: from a store whose balances are non-negative and
  whose bets have the unit amount, every run of the bot leads to a store whose balances
  are non-negative. The debit of a loser at resolution is clamped at 0, so it keeps the
  balances non-negative whatever the amount of the bet row.
\<close>

theorem balances_never_negative:
  "balances_nonneg s \<Longrightarrow> unit_bets s \<Longrightarrow>
     balances_nonneg (run evs s) \<and> (\<forall>b. balances_nonneg (debit_loser b (run evs s)))"
  using ledger_run [of s evs] by (simp add: nonneg_debit_loser)

theorem balances_never_negative_witness:
  "balances_nonneg empty_db \<and> unit_bets empty_db \<and>
   balances_nonneg
     (run [Stats ''U1'' ''m1'' ''M1'', Stats ''U2'' ''m2'' ''M2'',
           Create_line ''L'' ''q'' [''over'', ''under''] ''U1'',
           Reaction_added ''U1'' ''chart_with_upwards_trend'' ''L'' ''n1'' ''M1'' ''b1'',
           Reaction_added ''U2'' ''chart_with_downwards_trend'' ''L'' ''n2'' ''M2'' ''b2'',
           Resolve_line ''L'' ''over''] empty_db)"
proof -
  have h1: "balances_nonneg empty_db" by code_simp
  have h2: "unit_bets empty_db" by code_simp
  show ?thesis using h1 h2 balances_never_negative [OF h1 h2] by simp
qed

text \<open>
  C8. A reaction removed retires the member's stake on the line, adds the stake's
  amount to the balance and takes one off the stake count exactly when the line is
  open, the member has a stake on the line, and the removed reaction stands for the
  option of that stake; in every other case the store is unchanged.
\<close>

theorem reaction_removed_effect:
  "handleReactionRemoved su r l s =
     (case getBettingLine l s of
        None \<Rightarrow> s
      | Some line \<Rightarrow>
          (case getUserBySlackId su s of
             None \<Rightarrow> s
           | Some m \<Rightarrow>
               (case getUserBetOnLine (uid m) l s of
                  None \<Rightarrow> s
                | Some stake \<Rightarrow>
                    if status line = Open \<and> decoded_option r line = Some (bet_option stake)
                    then s\<lparr>users :=
                             map (\<lambda>u. if uid u = uid m
                                      then u\<lparr>balance := balance m + amount stake,
                                             total_bets := total_bets u - 1\<rparr>
                                      else u) (users s),
                           bets := filter (\<lambda>b. bid b \<noteq> bid stake) (bets s)\<rparr>
                    else s)))"
  unfolding handleReactionRemoved_eq
  by (simp add: incrementUserStats_def updateUserBalance_def delete_bet_def o_def
           split: option.splits cong: if_cong)

text \<open>
  The second member takes the reaction back before the lock: the stake is retired and
  the balance is 20 again. A reaction for an option the member did not stake on, and a
  reaction removed after the lock, change nothing.
\<close>

theorem reaction_removed_effect_witness:
  "map (\<lambda>u. (uid u, balance u, total_bets u)) (users three_stakes) =
     [(''m1'', 19, 1), (''m2'', 19, 1), (''m3'', 19, 1)] \<and>
   map (\<lambda>u. (uid u, balance u, total_bets u))
     (users (handleReactionRemoved ''U2'' ''chart_with_downwards_trend'' ''L'' three_stakes)) =
     [(''m1'', 19, 1), (''m2'', 20, 0), (''m3'', 19, 1)] \<and>
   map bid (bets (handleReactionRemoved ''U2'' ''chart_with_downwards_trend'' ''L''
                    three_stakes)) = [''b1'', ''b3''] \<and>
   handleReactionRemoved ''U2'' ''chart_with_upwards_trend'' ''L'' three_stakes = three_stakes \<and>
   handleReactionRemoved ''U2'' ''chart_with_downwards_trend'' ''L''
     (handleLockLine ''L'' three_stakes) = handleLockLine ''L'' three_stakes"
  by (simp only: reaction_removed_effect) code_simp

text \<open>
  C9. The claim: the symbol at index \<open>i\<close> is the curated symbol of the lower-cased
  option if the table has it, else the \<open>i\<close>-th symbol of the palette, else the numeric
  placeholder. Lemmas \<open>generateEmojis_length\<close> and \<open>generateEmojis_nth\<close> show this
  for every option that does not lower-case to the name of a member of
  \<^verbatim>\<open>Object.prototype\<close>. For the option \<^verbatim>\<open>constructor\<close> the lookup in the curated table
  finds the inherited constructor function, which is truthy, and the result at that
  index is that function instead of \<^verbatim>\<open>:a:\<close>.
\<close>

theorem generateEmojis_constructor:
  "generateEmojis [''constructor'', ''no''] = [NotAString, Sym '':x:''] \<and>
   generateEmojis [''constructor'', ''no''] \<noteq> [Sym '':a:'', Sym '':x:'']"
  by code_simp

text \<open>
  C10. The claim: \<^verbatim>\<open>placeBet\<close> accepts any option string, and \<^verbatim>\<open>calculatePayouts\<close>
  counts such a stake as a losing one when the option differs from the winning option.
  Lemmas \<open>placeBet_accepts_any_option\<close> and \<open>losing_stake_counted\<close> show both parts
  for option strings that do not name a member of \<^verbatim>\<open>Object.prototype\<close>. The option
  \<^verbatim>\<open>toString\<close>, which is not an option of line \<^verbatim>\<open>L\<close>, is accepted by \<^verbatim>\<open>placeBet\<close>;
  \<^verbatim>\<open>calculatePayouts\<close> then throws a \<^verbatim>\<open>TypeError\<close> instead of counting the stake.
\<close>

theorem foreign_inherited_option:
  "(case placeBet ''b2'' ''m2'' ''L'' (Some ''toString'')
           (run [Place_bet ''b1'' ''m1'' ''L'' (Some ''over'')] three_members) of
      (s', Inr row) \<Rightarrow>
        bet_option row = ''toString'' \<and> ''toString'' \<notin> set [''over'', ''under''] \<and>
        map bet_option (bets s') = [''over'', ''toString''] \<and>
        calculatePayouts ''L'' ''over'' s' = Inl TypeError
    | (s', Inl e) \<Rightarrow> False)"
  by code_simp

end
